theory Spec2Isabelle
  imports Main "HOL-Library.Word" "HOL-Library.AList"
begin

unbundle bit_operations_syntax

section \<open>Go runtime behaviour the code relies on\<close>

text \<open>
  A Go \<open>string\<close> is a sequence of bytes; \<open>len\<close> counts bytes and \<open>s[a:b]\<close> slices
  by byte offset. HOL's \<open>string\<close> is a list of 8-bit characters, so the two coincide.
  Runtime panics are values of the type \<open>panic\<close>.
\<close>

datatype panic =
    DivideByZero
  | MakesliceCapOutOfRange
  | SliceBoundsOutOfRange
  | InterfaceConversion
  | NilPointerDereference

type_synonym uint16 = "16 word"
type_synonym uint32 = "32 word"

definition byte :: "char \<Rightarrow> nat" where
  "byte c = of_char c"

text \<open>\<open>s[a:b]\<close>: panics unless \<open>a \<le> b \<le> len(s)\<close>.\<close>

definition slice :: "string \<Rightarrow> nat \<Rightarrow> nat \<Rightarrow> panic + string" where
  "slice s a b =
     (if a \<le> b \<and> b \<le> length s then Inr (take (b - a) (drop a s))
      else Inl SliceBoundsOutOfRange)"

text \<open>Go's integer division truncates towards zero.\<close>

definition go_div :: "int \<Rightarrow> int \<Rightarrow> int" where
  "go_div a b = sgn a * sgn b * (\<bar>a\<bar> div \<bar>b\<bar>)"

text \<open>
  \<open>for i := range s\<close> over a string visits the byte offset of every UTF-8 encoded
  rune: a byte below \<open>0x80\<close> advances by one, anything else goes through the runtime's
  \<open>decoderune\<close>, which advances by the width of a well-formed encoding (2, 3 or 4
  bytes) and by one byte on a malformed one.
\<close>

definition is_cont :: "char \<Rightarrow> bool" where
  "is_cont c = (0x80 \<le> byte c \<and> byte c \<le> 0xBF)"

definition decoderune :: "string \<Rightarrow> nat \<Rightarrow> nat" where
  "decoderune s k =
     (if k \<ge> length s then k + 1
      else
        let t = drop k s; b0 = byte (t ! 0) in
        if 0xC0 \<le> b0 \<and> b0 < 0xE0 then
          (if length t > 1 \<and> is_cont (t ! 1)
              \<and> 0x7F < (b0 mod 32) * 64 + byte (t ! 1) mod 64
           then k + 2 else k + 1)
        else if 0xE0 \<le> b0 \<and> b0 < 0xF0 then
          (if length t > 2 \<and> is_cont (t ! 1) \<and> is_cont (t ! 2)
              \<and> (let r = (b0 mod 16) * 4096 + (byte (t ! 1) mod 64) * 64 + byte (t ! 2) mod 64
                  in 0x7FF < r \<and> \<not> (0xD800 \<le> r \<and> r \<le> 0xDFFF))
           then k + 3 else k + 1)
        else if 0xF0 \<le> b0 \<and> b0 < 0xF8 then
          (if length t > 3 \<and> is_cont (t ! 1) \<and> is_cont (t ! 2) \<and> is_cont (t ! 3)
              \<and> (let r = (b0 mod 8) * 262144 + (byte (t ! 1) mod 64) * 4096
                          + (byte (t ! 2) mod 64) * 64 + byte (t ! 3) mod 64
                  in 0xFFFF < r \<and> r \<le> 0x10FFFF)
           then k + 4 else k + 1)
        else k + 1)"

definition range_next :: "string \<Rightarrow> nat \<Rightarrow> nat" where
  "range_next s i = (if byte (s ! i) < 0x80 then i + 1 else decoderune s i)"

lemma decoderune_gt: "k < decoderune s k"
  by (simp add: decoderune_def Let_def)

lemma range_next_gt: "i < range_next s i"
  by (simp add: range_next_def decoderune_gt)

section \<open>utils.go\<close>

text \<open>\<open>strings.Trim(s, ".")\<close>: drops every leading and every trailing dot.\<close>

definition trimDot :: "string \<Rightarrow> string" where
  "trimDot s = rev (dropWhile (\<lambda>c. c = CHR ''.'') (rev (dropWhile (\<lambda>c. c = CHR ''.'') s)))"

text \<open>
  The loop of \<open>chunks\<close>: \<open>i\<close> is the byte offset of the current rune,
  \<open>currentLen\<close> the number of runes seen since \<open>currentStart\<close>.
\<close>

function chunks_loop ::
  "string \<Rightarrow> int \<Rightarrow> nat \<Rightarrow> int \<Rightarrow> nat \<Rightarrow> string list \<Rightarrow> panic + string list" where
  "chunks_loop s chunkSize i currentLen currentStart chunks =
     (if i < length s then
        (if currentLen = chunkSize then
           (case slice s currentStart i of
              Inl p \<Rightarrow> Inl p
            | Inr c \<Rightarrow> chunks_loop s chunkSize (range_next s i) (0 + 1) i (chunks @ [c]))
         else chunks_loop s chunkSize (range_next s i) (currentLen + 1) currentStart chunks)
      else
        (case slice s currentStart (length s) of
           Inl p \<Rightarrow> Inl p
         | Inr c \<Rightarrow> Inr (chunks @ [c])))"
  by pat_completeness auto
termination
proof (relation "measure (\<lambda>(s, chunkSize, i, currentLen, currentStart, chunks). length s - i)")
  show "wf (measure (\<lambda>(s, chunkSize, i, currentLen, currentStart, chunks). length s - i))"
    by simp
next
  fix s :: string and chunkSize :: int and i :: nat and currentLen :: int
    and currentStart :: nat and chunks :: "string list" and c :: string
  assume "i < length s"
  then show "((s, chunkSize, range_next s i, 0 + 1, i, chunks @ [c]),
              (s, chunkSize, i, currentLen, currentStart, chunks))
             \<in> measure (\<lambda>(s, chunkSize, i, currentLen, currentStart, chunks). length s - i)"
    using range_next_gt [of i s] by simp
next
  fix s :: string and chunkSize :: int and i :: nat and currentLen :: int
    and currentStart :: nat and chunks :: "string list"
  assume "i < length s"
  then show "((s, chunkSize, range_next s i, currentLen + 1, currentStart, chunks),
              (s, chunkSize, i, currentLen, currentStart, chunks))
             \<in> measure (\<lambda>(s, chunkSize, i, currentLen, currentStart, chunks). length s - i)"
    using range_next_gt [of i s] by simp
qed

declare chunks_loop.simps [simp del]

text \<open>
  \<open>chunks\<close>: the capacity \<open>(len(s)-1)/chunkSize+1\<close> is computed before the loop, so a
  zero \<open>chunkSize\<close> panics with a division by zero and a negative capacity panics in
  \<open>make\<close>.
\<close>

definition chunks :: "string \<Rightarrow> int \<Rightarrow> panic + string list" where
  "chunks s chunkSize =
     (if length s = 0 then Inr []
      else if chunkSize \<ge> int (length s) then Inr [s]
      else if chunkSize = 0 then Inl DivideByZero
      else if go_div (int (length s) - 1) chunkSize + 1 < 0 then Inl MakesliceCapOutOfRange
      else chunks_loop s chunkSize 0 0 0 [])"

section \<open>The DNS message model (github.com/miekg/dns)\<close>

text \<open>
  Only the parts of the library's types that the code reads or writes. An \<open>RR\<close> is an
  interface value: its dynamic type is the constructor, its header carries \<open>Rrtype\<close>
  as a field of its own, and a type assertion \<open>rr.(*dns.PTR)\<close> on another dynamic
  type panics. \<open>net.IP\<close> is a byte slice.
\<close>

type_synonym IP = "8 word list"

record RR_Header =
  Name :: string
  Rrtype :: uint16
  Class :: uint16
  Ttl :: uint32

datatype RR =
    RR_PTR RR_Header string
  | RR_SRV RR_Header uint16 uint16 uint16 string
  | RR_TXT RR_Header "string list"
  | RR_A RR_Header IP
  | RR_AAAA RR_Header IP
  | RR_Other RR_Header

fun Header :: "RR \<Rightarrow> RR_Header" where
  "Header (RR_PTR h ptr) = h"
| "Header (RR_SRV h priority weight port target) = h"
| "Header (RR_TXT h txt) = h"
| "Header (RR_A h a) = h"
| "Header (RR_AAAA h aaaa) = h"
| "Header (RR_Other h) = h"

definition TypeA :: uint16 where "TypeA = 1"
definition TypePTR :: uint16 where "TypePTR = 12"
definition TypeTXT :: uint16 where "TypeTXT = 16"
definition TypeAAAA :: uint16 where "TypeAAAA = 28"
definition TypeSRV :: uint16 where "TypeSRV = 33"
definition TypeANY :: uint16 where "TypeANY = 255"
definition ClassINET :: uint16 where "ClassINET = 1"
definition OpcodeQuery :: int where "OpcodeQuery = 0"
definition RcodeSuccess :: int where "RcodeSuccess = 0"

text \<open>\<open>dns.Question\<close>; its field \<open>Name\<close> is \<open>QName\<close> here.\<close>

record Question =
  QName :: string
  Qtype :: uint16
  Qclass :: uint16

text \<open>\<open>dns.Msg\<close>; its field \<open>Id\<close> is \<open>MsgId\<close> here.\<close>

record Msg =
  MsgId :: uint16
  Response :: bool
  Opcode :: int
  Authoritative :: bool
  RecursionDesired :: bool
  CheckingDisabled :: bool
  Rcode :: int
  Compress :: bool
  Question :: "Question list"
  Answer :: "RR list"
  Ns :: "RR list"
  Extra :: "RR list"

text \<open>\<open>new(dns.Msg)\<close>: the zero value.\<close>

definition new_Msg :: Msg where
  "new_Msg = \<lparr>MsgId = 0, Response = False, Opcode = 0, Authoritative = False,
              RecursionDesired = False, CheckingDisabled = False, Rcode = 0, Compress = False,
              Question = [], Answer = [], Ns = [], Extra = []\<rparr>"

text \<open>\<open>(*Msg).SetReply\<close> of the library.\<close>

definition SetReply :: "Msg \<Rightarrow> Msg \<Rightarrow> Msg" where
  "SetReply m request =
     (let m1 = m\<lparr>MsgId := MsgId request, Response := True, Opcode := Opcode request\<rparr>;
          m2 = (if Opcode m1 = OpcodeQuery
                then m1\<lparr>RecursionDesired := RecursionDesired request,
                        CheckingDisabled := CheckingDisabled request\<rparr>
                else m1);
          m3 = m2\<lparr>Rcode := RcodeSuccess\<rparr>
      in if length (Question request) > 0 then m3\<lparr>Question := [hd (Question request)]\<rparr>
         else m3)"

section \<open>The service entry\<close>

text \<open>
  \<open>ServiceRecord\<close>, \<open>ServiceEntry\<close> and \<open>lookupParams\<close> are declared in a file of
  the package that is not part of the sources at hand; their fields are the ones
  \<open>server.go\<close> reads and writes. The field \<open>Domain\<close> is \<open>DomainName\<close> here, and a
  \<open>time.Time\<close> is a number of nanoseconds.
\<close>

record ServiceRecord =
  Instance :: string
  Service :: string
  DomainName :: string
  Subtypes :: "string list"

record ServiceEntry = ServiceRecord +
  HostName :: string
  Port :: int
  Text :: "string list"
  Expiry :: int
  AddrIPv4 :: "IP list"
  AddrIPv6 :: "IP list"
  CacheFlush :: bool

text \<open>
  Modelled from the spec: \<open>ServiceName\<close>, the method of the service record that is
  missing from the sources: \<open>"<service>.<domain>."\<close>.
\<close>

definition ServiceName :: "'a ServiceRecord_scheme \<Rightarrow> string" where
  "ServiceName r = Service r @ ''.'' @ DomainName r @ ''.''"

text \<open>
  Modelled from the spec: \<open>ServiceInstanceName\<close>, missing from the sources:
  \<open>"<instance>.<service>.<domain>."\<close>, and empty when no instance is set (an empty
  instance means browsing).
\<close>

definition ServiceInstanceName :: "'a ServiceRecord_scheme \<Rightarrow> string" where
  "ServiceInstanceName r =
     (if Instance r = [] then [] else Instance r @ ''.'' @ ServiceName r)"

text \<open>
  Modelled from the spec: \<open>ServiceTypeName\<close>, missing from the sources:
  \<open>"_services._dns-sd._udp.<domain>."\<close>.
\<close>

definition ServiceTypeName :: "'a ServiceRecord_scheme \<Rightarrow> string" where
  "ServiceTypeName r = ''_services._dns-sd._udp.'' @ DomainName r @ ''.''"

text \<open>
  Modelled from the spec: \<open>TxtRecords\<close>, missing from the sources: every TXT value
  split by \<open>chunks(s, 255)\<close>, the pieces concatenated in insertion order; an
  empty set is one zero-length string.
\<close>

definition TxtRecords :: "ServiceEntry \<Rightarrow> string list" where
  "TxtRecords e =
     (if Text e = [] then [[]]
      else concat (map (\<lambda>t. case chunks t 255 of Inr cs \<Rightarrow> cs | Inl p \<Rightarrow> []) (Text e)))"

text \<open>\<open>parseSubtypes\<close> of utils.go, with \<open>strings.Split(service, ",")\<close>.\<close>

fun split_comma :: "string \<Rightarrow> string \<Rightarrow> string list" where
  "split_comma cur [] = [cur]"
| "split_comma cur (c # cs) =
     (if c = CHR '','' then cur # split_comma [] cs else split_comma (cur @ [c]) cs)"

definition parseSubtypes :: "string \<Rightarrow> string \<times> string list" where
  "parseSubtypes service =
     (let subtypes = split_comma [] service in (hd subtypes, tl subtypes))"

text \<open>
  Modelled from the spec: \<open>newServiceEntry\<close>, missing from the sources: the entry of
  the given instance, service and domain, the service argument carrying the subtypes
  as \<open>"<service>,<sub1>,<sub2>"\<close>; every other field has its zero value.
\<close>

definition newServiceEntry :: "string \<Rightarrow> string \<Rightarrow> string \<Rightarrow> ServiceEntry" where
  "newServiceEntry instance service domain =
     \<lparr>Instance = instance, Service = fst (parseSubtypes service), DomainName = domain,
      Subtypes = snd (parseSubtypes service), HostName = [], Port = 0, Text = [], Expiry = 0,
      AddrIPv4 = [], AddrIPv6 = [], CacheFlush = False\<rparr>"

section \<open>The operating system and the transport\<close>

text \<open>
  \<open>net.Interface\<close> with the result of its \<open>Addrs()\<close>; the field \<open>Name\<close> is
  \<open>IfaceName\<close> here. An address is an \<open>*net.IPNet\<close> or something else.
\<close>

datatype Addr = IPNet IP | OtherAddr

record Interface =
  Index :: int
  IfaceName :: string
  Addrs :: "Addr list"

datatype NetAddr = UDPAddr IP int

text \<open>
  What the code asks of the operating system, of Go's \<open>net\<close> package and of the DNS
  codec is a parameter of the model: the host name, the interfaces, joining the
  multicast groups, the classification of an IP address (\<open>To4\<close> and \<open>To16\<close> say
  whether the conversion is non-nil), and \<open>Unpack\<close> (\<open>None\<close> is an error).
\<close>

record Env =
  Hostname :: "string option"
  listMulticastInterfaces :: "Interface list"
  InterfaceByIndex :: "int \<Rightarrow> Interface option"
  joinUdp4Multicast :: "Interface list \<Rightarrow> bool"
  joinUdp6Multicast :: "Interface list \<Rightarrow> bool"
  ParseIP :: "string \<Rightarrow> IP option"
  To4 :: "IP \<Rightarrow> bool"
  To16 :: "IP \<Rightarrow> bool"
  IsLoopback :: "IP \<Rightarrow> bool"
  IsGlobalUnicast :: "IP \<Rightarrow> bool"
  IsLinkLocalUnicast :: "IP \<Rightarrow> bool"
  Unpack :: "8 word list \<Rightarrow> Msg option"

text \<open>
  A send is recorded as the call that makes it: \<open>unicastResponse(resp, ifIndex, from)\<close>
  or \<open>multicastResponse(msg, ifIndex)\<close>.
\<close>

datatype send =
    unicastResponse Msg int NetAddr
  | multicastResponse Msg int

fun sent_msg :: "send \<Rightarrow> Msg" where
  "sent_msg (unicastResponse m ifIndex from) = m"
| "sent_msg (multicastResponse m ifIndex) = m"

section \<open>server.go: the responder\<close>

definition multicastRepetitions :: nat where
  "multicastRepetitions = 2"

definition defaultTTL :: uint32 where
  "defaultTTL = 3200"

definition qClassCacheFlush :: uint16 where
  "qClassCacheFlush = push_bit 15 1"

text \<open>
  The fields of \<open>serverOpts\<close> and \<open>Server\<close> carry a prefix, so that \<open>ttl\<close> and
  \<open>ifaces\<close> stay free for the parameters of that name. A connection is recorded
  by whether it is non-nil.
\<close>

record serverOpts =
  o_ttl :: uint32

type_synonym ServerOption = "serverOpts \<Rightarrow> serverOpts"

definition applyServerOpts :: "ServerOption option list \<Rightarrow> serverOpts" where
  "applyServerOpts options =
     foldl (\<lambda>conf opt. case opt of None \<Rightarrow> conf | Some f \<Rightarrow> f conf) \<lparr>o_ttl = defaultTTL\<rparr> options"

definition TTL :: "uint32 \<Rightarrow> ServerOption" where
  "TTL t = (\<lambda>conf. conf\<lparr>o_ttl := t\<rparr>)"

record Server =
  s_service :: "ServiceEntry option"
  s_ipv4conn :: bool
  s_ipv6conn :: bool
  s_ifaces :: "Interface list"
  s_isShutdown :: bool
  s_ttl :: uint32

definition newServer :: "Env \<Rightarrow> Interface list \<Rightarrow> serverOpts \<Rightarrow> string + Server" where
  "newServer env ifaces opts =
     (let err4 = \<not> joinUdp4Multicast env ifaces;
          err6 = \<not> joinUdp6Multicast env ifaces
      in if err4 \<and> err6 then Inl ''no supported interface''
         else Inr \<lparr>s_service = None, s_ipv4conn = \<not> err4, s_ipv6conn = \<not> err6,
                   s_ifaces = ifaces, s_isShutdown = False, s_ttl = o_ttl opts\<rparr>)"

text \<open>
  \<open>addrsForInterface\<close>. The inner \<open>switch\<close> has the tag \<open>ip != nil\<close> with
  \<open>ip = ipnet.IP.To16()\<close>, and takes the first case whose value equals the tag; the
  methods of a nil \<open>ip\<close> return false.
\<close>

definition addrsForInterface_step ::
  "Env \<Rightarrow> IP list \<times> IP list \<times> IP list \<Rightarrow> Addr \<Rightarrow> IP list \<times> IP list \<times> IP list" where
  "addrsForInterface_step env acc address =
     (case acc of (v4, v6, v6local) \<Rightarrow>
        (case address of
           OtherAddr \<Rightarrow> (v4, v6, v6local)
         | IPNet ip \<Rightarrow>
             if IsLoopback env ip then (v4, v6, v6local)
             else if To4 env ip then (v4 @ [ip], v6, v6local)
             else
               let tag = To16 env ip in
               if (tag \<and> IsGlobalUnicast env ip) = tag then (v4, v6 @ [ip], v6local)
               else if (tag \<and> IsLinkLocalUnicast env ip) = tag then (v4, v6, v6local @ [ip])
               else (v4, v6, v6local)))"

definition addrsForInterface :: "Env \<Rightarrow> Interface \<Rightarrow> IP list \<times> IP list" where
  "addrsForInterface env iface =
     (case foldl (addrsForInterface_step env) ([], [], []) (Addrs iface) of
        (v4, v6, v6local) \<Rightarrow> (v4, if length v6 = 0 then v6local else v6))"

text \<open>
  The methods below dereference \<open>s.service\<close>; they take the entry it points to as the
  argument \<open>e\<close>, and their callers do the dereference.
\<close>

definition appendAddrs ::
  "Env \<Rightarrow> Server \<Rightarrow> ServiceEntry \<Rightarrow> RR list \<Rightarrow> uint32 \<Rightarrow> int \<Rightarrow> bool \<Rightarrow> RR list" where
  "appendAddrs env s e list t ifIndex flushCache =
     (let v4 = AddrIPv4 e;
          v6 = AddrIPv6 e;
          (v4, v6) =
            (if length v4 = 0 \<and> length v6 = 0 then
               (case InterfaceByIndex env ifIndex of
                  None \<Rightarrow> (v4, v6)
                | Some iface \<Rightarrow>
                    (case addrsForInterface env iface of (a4, a6) \<Rightarrow> (v4 @ a4, v6 @ a6)))
             else (v4, v6));
          t = (if t > 0 then 120 else t);
          cacheFlushBit = (if flushCache then qClassCacheFlush else 0)
      in list
         @ map (\<lambda>ipv4. RR_A \<lparr>Name = HostName e, Rrtype = TypeA,
                              Class = ClassINET OR cacheFlushBit, Ttl = t\<rparr> ipv4) v4
         @ map (\<lambda>ipv6. RR_AAAA \<lparr>Name = HostName e, Rrtype = TypeAAAA,
                                 Class = ClassINET OR cacheFlushBit, Ttl = t\<rparr> ipv6) v6)"

definition composeBrowsingAnswers :: "Env \<Rightarrow> Server \<Rightarrow> ServiceEntry \<Rightarrow> Msg \<Rightarrow> int \<Rightarrow> Msg" where
  "composeBrowsingAnswers env s e resp ifIndex =
     (let ptr = RR_PTR \<lparr>Name = ServiceName e, Rrtype = TypePTR, Class = ClassINET,
                        Ttl = s_ttl s\<rparr> (ServiceInstanceName e);
          resp = resp\<lparr>Answer := Answer resp @ [ptr]\<rparr>;
          txt = RR_TXT \<lparr>Name = ServiceInstanceName e, Rrtype = TypeTXT, Class = ClassINET,
                        Ttl = s_ttl s\<rparr> (TxtRecords e);
          srv = RR_SRV \<lparr>Name = ServiceInstanceName e, Rrtype = TypeSRV, Class = ClassINET,
                        Ttl = s_ttl s\<rparr> 0 0 (word_of_int (Port e)) (HostName e);
          resp = resp\<lparr>Extra := Extra resp @ [srv, txt]\<rparr>
      in resp\<lparr>Extra := appendAddrs env s e (Extra resp) (s_ttl s) ifIndex False\<rparr>)"

definition composeLookupAnswers ::
  "Env \<Rightarrow> Server \<Rightarrow> ServiceEntry \<Rightarrow> Msg \<Rightarrow> uint32 \<Rightarrow> int \<Rightarrow> bool \<Rightarrow> Msg" where
  "composeLookupAnswers env s e resp t ifIndex flushCache =
     (let ptr = RR_PTR \<lparr>Name = ServiceName e, Rrtype = TypePTR, Class = ClassINET,
                        Ttl = t\<rparr> (ServiceInstanceName e);
          srv = RR_SRV \<lparr>Name = ServiceInstanceName e, Rrtype = TypeSRV,
                        Class = ClassINET OR qClassCacheFlush, Ttl = t\<rparr>
                  0 0 (word_of_int (Port e)) (HostName e);
          txt = RR_TXT \<lparr>Name = ServiceInstanceName e, Rrtype = TypeTXT,
                        Class = ClassINET OR qClassCacheFlush, Ttl = t\<rparr> (TxtRecords e);
          dnssd = RR_PTR \<lparr>Name = ServiceTypeName e, Rrtype = TypePTR, Class = ClassINET,
                          Ttl = t\<rparr> (ServiceName e);
          resp = resp\<lparr>Answer := Answer resp @ [srv, txt, ptr, dnssd]\<rparr>;
          resp = resp\<lparr>Answer := Answer resp
                   @ map (\<lambda>subtype. RR_PTR \<lparr>Name = subtype, Rrtype = TypePTR,
                                              Class = ClassINET, Ttl = t\<rparr>
                                        (ServiceInstanceName e)) (Subtypes e)\<rparr>
      in resp\<lparr>Answer := appendAddrs env s e (Answer resp) t ifIndex flushCache\<rparr>)"

definition serviceTypeName :: "Server \<Rightarrow> ServiceEntry \<Rightarrow> Msg \<Rightarrow> uint32 \<Rightarrow> Msg" where
  "serviceTypeName s e resp t =
     (let dnssd = RR_PTR \<lparr>Name = ServiceTypeName e, Rrtype = TypePTR, Class = ClassINET,
                          Ttl = t\<rparr> (ServiceName e)
      in resp\<lparr>Answer := Answer resp @ [dnssd]\<rparr>)"

text \<open>
  \<open>isKnownAnswer\<close>: the loop over \<open>query.Answer\<close>, then the function. The two type
  assertions panic on a record whose header says PTR and whose dynamic type is not.
\<close>

fun isKnownAnswer_loop :: "RR_Header \<Rightarrow> string \<Rightarrow> RR list \<Rightarrow> panic + bool" where
  "isKnownAnswer_loop answer_Hdr answer_Ptr [] = Inr False"
| "isKnownAnswer_loop answer_Hdr answer_Ptr (known # rest) =
     (let hdr = Header known in
      if Rrtype hdr \<noteq> Rrtype answer_Hdr then isKnownAnswer_loop answer_Hdr answer_Ptr rest
      else
        (case known of
           RR_PTR h ptr \<Rightarrow>
             if ptr = answer_Ptr \<and> Ttl hdr \<ge> Ttl answer_Hdr div 2 then Inr True
             else isKnownAnswer_loop answer_Hdr answer_Ptr rest
         | _ \<Rightarrow> Inl InterfaceConversion))"

definition isKnownAnswer :: "Msg \<Rightarrow> Msg \<Rightarrow> panic + bool" where
  "isKnownAnswer resp query =
     (if length (Answer resp) = 0 \<or> length (Answer query) = 0 then Inr False
      else if Rrtype (Header (hd (Answer resp))) \<noteq> TypePTR then Inr False
      else
        (case hd (Answer resp) of
           RR_PTR answer_Hdr answer_Ptr \<Rightarrow>
             isKnownAnswer_loop answer_Hdr answer_Ptr (Answer query)
         | _ \<Rightarrow> Inl InterfaceConversion))"

text \<open>
  The block \<open>if isKnownAnswer(resp, query) { resp.Answer = nil }\<close>, which
  \<open>handleQuestion\<close> repeats in three of its branches.
\<close>

definition clearKnownAnswer :: "Msg \<Rightarrow> Msg \<Rightarrow> panic + Msg" where
  "clearKnownAnswer resp query =
     (case isKnownAnswer resp query of
        Inl p \<Rightarrow> Inl p
      | Inr known \<Rightarrow> Inr (if known then resp\<lparr>Answer := []\<rparr> else resp))"

text \<open>The \<open>default\<close> branch of \<open>handleQuestion\<close>: the loop over the subtypes.\<close>

fun handleQuestion_subtypes ::
  "Env \<Rightarrow> Server \<Rightarrow> ServiceEntry \<Rightarrow> Question \<Rightarrow> Msg \<Rightarrow> Msg \<Rightarrow> int \<Rightarrow> string list
     \<Rightarrow> panic + Msg" where
  "handleQuestion_subtypes env s e q resp query ifIndex [] = Inr resp"
| "handleQuestion_subtypes env s e q resp query ifIndex (subtype # rest) =
     (let subtype = subtype @ ''._sub.'' @ ServiceName e in
      if QName q = subtype
      then clearKnownAnswer (composeBrowsingAnswers env s e resp ifIndex) query
      else handleQuestion_subtypes env s e q resp query ifIndex rest)"

text \<open>\<open>handleQuestion\<close> returns the response it has filled in; its error is always nil.\<close>

definition handleQuestion :: "Env \<Rightarrow> Server \<Rightarrow> Question \<Rightarrow> Msg \<Rightarrow> Msg \<Rightarrow> int \<Rightarrow> panic + Msg" where
  "handleQuestion env s q resp query ifIndex =
     (case s_service s of
        None \<Rightarrow> Inr resp
      | Some e \<Rightarrow>
          if QName q = ServiceTypeName e
          then clearKnownAnswer (serviceTypeName s e resp (s_ttl s)) query
          else if QName q = ServiceName e
          then clearKnownAnswer (composeBrowsingAnswers env s e resp ifIndex) query
          else if QName q = ServiceInstanceName e
          then Inr (composeLookupAnswers env s e resp (s_ttl s) ifIndex False)
          else handleQuestion_subtypes env s e q resp query ifIndex (Subtypes e))"

definition isUnicastQuestion :: "Question \<Rightarrow> bool" where
  "isUnicastQuestion q = (Qclass q AND qClassCacheFlush \<noteq> 0)"

text \<open>
  \<open>handleQuery\<close>: the response prepared for each question, the body of the loop for
  one question, and the loop. The result lists the sends in order.
\<close>

definition handleQuery_resp :: "Msg \<Rightarrow> Msg" where
  "handleQuery_resp query =
     (SetReply new_Msg query)\<lparr>Compress := True, RecursionDesired := False,
        Authoritative := True, Question := [], Answer := [], Extra := []\<rparr>"

definition handleQuery_body ::
  "Env \<Rightarrow> Server \<Rightarrow> Msg \<Rightarrow> int \<Rightarrow> NetAddr \<Rightarrow> Question \<Rightarrow> panic + send list" where
  "handleQuery_body env s query ifIndex from q =
     (case handleQuestion env s q (handleQuery_resp query) query ifIndex of
        Inl p \<Rightarrow> Inl p
      | Inr resp \<Rightarrow>
          if length (Answer resp) = 0 then Inr []
          else if isUnicastQuestion q then Inr [unicastResponse resp ifIndex from]
          else Inr [multicastResponse resp ifIndex])"

fun handleQuery_loop ::
  "Env \<Rightarrow> Server \<Rightarrow> Msg \<Rightarrow> int \<Rightarrow> NetAddr \<Rightarrow> Question list \<Rightarrow> panic + send list" where
  "handleQuery_loop env s query ifIndex from [] = Inr []"
| "handleQuery_loop env s query ifIndex from (q # qs) =
     (case handleQuery_body env s query ifIndex from q of
        Inl p \<Rightarrow> Inl p
      | Inr sends \<Rightarrow>
          (case handleQuery_loop env s query ifIndex from qs of
             Inl p \<Rightarrow> Inl p
           | Inr rest \<Rightarrow> Inr (sends @ rest)))"

definition handleQuery :: "Env \<Rightarrow> Server \<Rightarrow> Msg \<Rightarrow> int \<Rightarrow> NetAddr \<Rightarrow> panic + send list" where
  "handleQuery env s query ifIndex from =
     (if length (Ns query) > 0 then Inr []
      else handleQuery_loop env s query ifIndex from (Question query))"

text \<open>
  \<open>probe\<close>, run to its end (a shutdown cuts the sequence of sends short): three
  probe queries, then \<open>multicastRepetitions\<close> rounds of one announcement per
  interface. \<open>msgId\<close> is the message id that \<open>SetQuestion\<close> draws.
\<close>

definition probe_query :: "Server \<Rightarrow> ServiceEntry \<Rightarrow> uint16 \<Rightarrow> Msg" where
  "probe_query s e msgId =
     (let q = new_Msg\<lparr>MsgId := msgId, RecursionDesired := True,
                Question := [\<lparr>QName = ServiceInstanceName e, Qtype = TypePTR,
                              Qclass = ClassINET\<rparr>]\<rparr>;
          q = q\<lparr>RecursionDesired := False\<rparr>;
          srv = RR_SRV \<lparr>Name = ServiceInstanceName e, Rrtype = TypeSRV, Class = ClassINET,
                        Ttl = s_ttl s\<rparr> 0 0 (word_of_int (Port e)) (HostName e);
          txt = RR_TXT \<lparr>Name = ServiceInstanceName e, Rrtype = TypeTXT, Class = ClassINET,
                        Ttl = s_ttl s\<rparr> (TxtRecords e)
      in q\<lparr>Ns := [srv, txt]\<rparr>)"

definition probe_announcement :: "Env \<Rightarrow> Server \<Rightarrow> ServiceEntry \<Rightarrow> Interface \<Rightarrow> send" where
  "probe_announcement env s e intf =
     (let resp = new_Msg\<lparr>Response := True\<rparr>;
          resp = resp\<lparr>Compress := True\<rparr>;
          resp = resp\<lparr>Answer := [], Extra := []\<rparr>;
          resp = composeLookupAnswers env s e resp (s_ttl s) (Index intf) True
      in multicastResponse resp (Index intf))"

definition probe :: "Env \<Rightarrow> Server \<Rightarrow> uint16 \<Rightarrow> panic + send list" where
  "probe env s msgId =
     (case s_service s of
        None \<Rightarrow> Inl NilPointerDereference
      | Some e \<Rightarrow>
          Inr (replicate 3 (multicastResponse (probe_query s e msgId) 0)
               @ concat (replicate multicastRepetitions
                           (map (probe_announcement env s e) (s_ifaces s)))))"

definition announceText :: "Env \<Rightarrow> Server \<Rightarrow> panic + send list" where
  "announceText env s =
     (case s_service s of
        None \<Rightarrow> Inl NilPointerDereference
      | Some e \<Rightarrow>
          (let resp = new_Msg\<lparr>Response := True\<rparr>;
               resp = composeBrowsingAnswers env s e resp 0
           in Inr [multicastResponse resp 0]))"

text \<open>\<open>SetText\<close> returns the updated server and the sends of \<open>announceText\<close>.\<close>

definition SetText :: "Env \<Rightarrow> Server \<Rightarrow> string list \<Rightarrow> panic + Server \<times> send list" where
  "SetText env s text =
     (case s_service s of
        None \<Rightarrow> Inl NilPointerDereference
      | Some e \<Rightarrow>
          (let s = s\<lparr>s_service := Some (e\<lparr>Text := text\<rparr>)\<rparr> in
           case announceText env s of
             Inl p \<Rightarrow> Inl p
           | Inr sends \<Rightarrow> Inr (s, sends)))"

definition unregister :: "Env \<Rightarrow> Server \<Rightarrow> panic + send list" where
  "unregister env s =
     (case s_service s of
        None \<Rightarrow> Inl NilPointerDereference
      | Some e \<Rightarrow>
          (let resp = new_Msg\<lparr>Response := True\<rparr>;
               resp = resp\<lparr>Answer := [], Extra := []\<rparr>;
               resp = composeLookupAnswers env s e resp 0 0 True
           in Inr [multicastResponse resp 0]))"

text \<open>
  The receive loops. A loop is run against a script: one entry for each iteration,
  saying what the iteration observes. For \<open>recv4\<close> and \<open>recv6\<close> that is whether
  \<open>shouldShutdown\<close> is closed and what \<open>ReadFrom\<close> returns (the packet
  \<open>buf[:n]\<close>, the interface index of the control message when there is one, the
  sender); the result lists the calls of \<open>parsePacket\<close>. An exhausted script is a
  loop blocked in \<open>ReadFrom\<close>. \<open>c\<close> says whether the connection is non-nil.
\<close>

datatype ReadResult = ReadError | ReadOk "8 word list" "int option" NetAddr

fun recv4 :: "bool \<Rightarrow> (bool \<times> ReadResult) list \<Rightarrow> (8 word list \<times> int \<times> NetAddr) list" where
  "recv4 c [] = []"
| "recv4 c ((shouldShutdown, r) # script) =
     (if \<not> c then []
      else if shouldShutdown then []
      else
        (case r of
           ReadError \<Rightarrow> recv4 c script
         | ReadOk packet cm from \<Rightarrow>
             (packet, (case cm of None \<Rightarrow> 0 | Some ifIndex \<Rightarrow> ifIndex), from)
               # recv4 c script))"

fun recv6 :: "bool \<Rightarrow> (bool \<times> ReadResult) list \<Rightarrow> (8 word list \<times> int \<times> NetAddr) list" where
  "recv6 c [] = []"
| "recv6 c ((shouldShutdown, r) # script) =
     (if \<not> c then []
      else if shouldShutdown then []
      else
        (case r of
           ReadError \<Rightarrow> recv6 c script
         | ReadOk packet cm from \<Rightarrow>
             (packet, (case cm of None \<Rightarrow> 0 | Some ifIndex \<Rightarrow> ifIndex), from)
               # recv6 c script))"

text \<open>\<open>parsePacket\<close>: \<open>None\<close> when the packet does not unpack.\<close>

definition parsePacket ::
  "Env \<Rightarrow> Server \<Rightarrow> 8 word list \<Rightarrow> int \<Rightarrow> NetAddr \<Rightarrow> (panic + send list) option" where
  "parsePacket env s packet ifIndex from =
     (case Unpack env packet of
        None \<Rightarrow> None
      | Some msg \<Rightarrow> Some (handleQuery env s msg ifIndex from))"

section \<open>server.go: registration\<close>

text \<open>\<open>strings.HasSuffix\<close>.\<close>

definition HasSuffix :: "string \<Rightarrow> string \<Rightarrow> bool" where
  "HasSuffix s suffix =
     (length s \<ge> length suffix \<and> drop (length s - length suffix) s = suffix)"

text \<open>The loop of \<open>Register\<close> that collects the addresses of the interfaces.\<close>

fun Register_addrs :: "Env \<Rightarrow> ServiceEntry \<Rightarrow> Interface list \<Rightarrow> ServiceEntry" where
  "Register_addrs env entry [] = entry"
| "Register_addrs env entry (iface # ifaces) =
     (case addrsForInterface env iface of
        (v4, v6) \<Rightarrow>
          Register_addrs env
            (entry\<lparr>AddrIPv4 := AddrIPv4 entry @ v4, AddrIPv6 := AddrIPv6 entry @ v6\<rparr>) ifaces)"

text \<open>
  \<open>Register\<close>. An error is the text of its message. \<open>newServiceEntry\<close> leaves the
  host name empty, so the host name is the one of the operating system.
\<close>

definition Register ::
  "Env \<Rightarrow> string \<Rightarrow> string \<Rightarrow> string \<Rightarrow> int \<Rightarrow> string list \<Rightarrow> Interface list
     \<Rightarrow> ServerOption option list \<Rightarrow> string + Server" where
  "Register env instance service domain port text ifaces opts =
     (let entry = newServiceEntry instance service domain;
          entry = entry\<lparr>Port := port\<rparr>;
          entry = entry\<lparr>Text := text\<rparr>
      in
      if Instance entry = [] then Inl ''missing service instance name''
      else if Service entry = [] then Inl ''missing service name''
      else
        let entry = (if DomainName entry = [] then entry\<lparr>DomainName := ''local.''\<rparr> else entry)
        in
        if Port entry = 0 then Inl ''missing port''
        else
          (case (if HostName entry = []
                 then (case Hostname env of
                         None \<Rightarrow> Inl ''could not determine host''
                       | Some h \<Rightarrow> Inr (entry\<lparr>HostName := h\<rparr>))
                 else Inr entry) of
             Inl err \<Rightarrow> Inl err
           | Inr entry \<Rightarrow>
               let entry =
                     (if \<not> HasSuffix (trimDot (HostName entry)) (DomainName entry)
                      then entry\<lparr>HostName := trimDot (HostName entry) @ ''.''
                                                @ trimDot (DomainName entry) @ ''.''\<rparr>
                      else entry);
                   ifaces = (if length ifaces = 0 then listMulticastInterfaces env else ifaces);
                   entry = Register_addrs env entry ifaces
               in
               if AddrIPv4 entry = [] \<and> AddrIPv6 entry = []
               then Inl ''could not determine host IP addresses''
               else
                 (case newServer env ifaces (applyServerOpts opts) of
                    Inl err \<Rightarrow> Inl err
                  | Inr s \<Rightarrow> Inr (s\<lparr>s_service := Some entry\<rparr>))))"

text \<open>
  \<open>RegisterProxy\<close>, with its loop over the given addresses first. The two messages
  that format a value keep their fixed text.
\<close>

fun RegisterProxy_ips :: "Env \<Rightarrow> ServiceEntry \<Rightarrow> string list \<Rightarrow> string + ServiceEntry" where
  "RegisterProxy_ips env entry [] = Inr entry"
| "RegisterProxy_ips env entry (ip # ips) =
     (case ParseIP env ip of
        None \<Rightarrow> Inl (''failed to parse given IP: '' @ ip)
      | Some ipAddr \<Rightarrow>
          if To4 env ipAddr
          then RegisterProxy_ips env (entry\<lparr>AddrIPv4 := AddrIPv4 entry @ [ipAddr]\<rparr>) ips
          else if To16 env ipAddr
          then RegisterProxy_ips env (entry\<lparr>AddrIPv6 := AddrIPv6 entry @ [ipAddr]\<rparr>) ips
          else Inl ''the IP is neither IPv4 nor IPv6'')"

definition RegisterProxy ::
  "Env \<Rightarrow> string \<Rightarrow> string \<Rightarrow> string \<Rightarrow> int \<Rightarrow> string \<Rightarrow> string list \<Rightarrow> string list
     \<Rightarrow> Interface list \<Rightarrow> ServerOption option list \<Rightarrow> string + Server" where
  "RegisterProxy env instance service domain port host ips text ifaces opts =
     (let entry = newServiceEntry instance service domain;
          entry = entry\<lparr>Port := port\<rparr>;
          entry = entry\<lparr>Text := text\<rparr>;
          entry = entry\<lparr>HostName := host\<rparr>
      in
      if Instance entry = [] then Inl ''missing service instance name''
      else if Service entry = [] then Inl ''missing service name''
      else if HostName entry = [] then Inl ''missing host name''
      else
        let entry = (if DomainName entry = [] then entry\<lparr>DomainName := ''local''\<rparr> else entry)
        in
        if Port entry = 0 then Inl ''missing port''
        else
          let entry =
                (if \<not> HasSuffix (trimDot (HostName entry)) (DomainName entry)
                 then entry\<lparr>HostName := trimDot (HostName entry) @ ''.''
                                           @ trimDot (DomainName entry) @ ''.''\<rparr>
                 else entry)
          in
          (case RegisterProxy_ips env entry ips of
             Inl err \<Rightarrow> Inl err
           | Inr entry \<Rightarrow>
               let ifaces = (if length ifaces = 0 then listMulticastInterfaces env else ifaces)
               in
               (case newServer env ifaces (applyServerOpts opts) of
                  Inl err \<Rightarrow> Inl err
                | Inr s \<Rightarrow> Inr (s\<lparr>s_service := Some entry\<rparr>))))"

section \<open>The resolver\<close>

text \<open>
  \<open>lookupParams\<close>, declared with the service record; only the fields the main loop
  reads.
\<close>

record lookupParams = ServiceRecord +
  isBrowsing :: bool

text \<open>
  The client's \<open>recv\<close>. The script says, for each iteration, whether \<open>ctx.Err()\<close>
  is non-nil at the head of the loop, what \<open>readFrom\<close> returns, and whether the final
  \<open>select\<close> takes \<open>ctx.Done()\<close>; \<open>fatalErr\<close> says whether the variable is
  non-nil. The result lists the messages put on \<open>msgCh\<close>. \<open>l\<close> is the dynamic
  type of the connection.
\<close>

datatype conn = IPv4PacketConn | IPv6PacketConn | OtherConn

fun recv :: "Env \<Rightarrow> conn \<Rightarrow> bool \<Rightarrow> (bool \<times> ReadResult \<times> bool) list \<Rightarrow> Msg list" where
  "recv env l fatalErr [] = []"
| "recv env l fatalErr ((ctxErr, r, ctxDone) # script) =
     (if l = OtherConn then []
      else if ctxErr \<or> fatalErr then []
      else
        (case r of
           ReadError \<Rightarrow> recv env l True script
         | ReadOk packet cm from \<Rightarrow>
             (case Unpack env packet of
                None \<Rightarrow> recv env l fatalErr script
              | Some msg \<Rightarrow> if ctxDone then [] else msg # recv env l fatalErr script)))"

text \<open>
  \<open>strings.Replace(s, old, "", n)\<close>, the only form the code uses: the first \<open>n\<close>
  occurrences of \<open>old\<close> are removed, all of them when \<open>n\<close> is negative, and an
  empty \<open>old\<close> removes nothing.
\<close>

function Replace_by_empty :: "string \<Rightarrow> string \<Rightarrow> int \<Rightarrow> string" where
  "Replace_by_empty s old n =
     (if n = 0 \<or> s = [] \<or> old = [] then s
      else if take (length old) s = old
      then Replace_by_empty (drop (length old) s) old (n - 1)
      else hd s # Replace_by_empty (tl s) old n)"
  by pat_completeness auto
termination
  by (relation "measure (\<lambda>(s, old, n). length s)") auto

declare Replace_by_empty.simps [simp del]

text \<open>
  The main loop, for one message taken from \<open>msgCh\<close> at the time \<open>now\<close> (in
  nanoseconds). \<open>entries\<close> is the map of the entries of this message, kept as an
  association list in the order of insertion (Go leaves the order of iteration open);
  \<open>sentEntries\<close> is the map of the entries delivered so far.
\<close>

definition Second :: int where
  "Second = 1000000000"

definition Minute :: int where
  "Minute = 60 * Second"

text \<open>The first loop over the sections, for one record.\<close>

fun mainloop_pass1 ::
  "'a lookupParams_scheme \<Rightarrow> int \<Rightarrow> (string \<times> ServiceEntry) list \<Rightarrow> RR
     \<Rightarrow> (string \<times> ServiceEntry) list" where
  "mainloop_pass1 params now entries (RR_PTR hdr ptr) =
     (if ServiceName params \<noteq> Name hdr then entries
      else if ServiceInstanceName params \<noteq> [] \<and> ServiceInstanceName params \<noteq> ptr then entries
      else
        let entries =
              (if map_of entries ptr = None
               then AList.update ptr
                      (newServiceEntry (trimDot (Replace_by_empty ptr (Name hdr) (- 1)))
                         (Service params) (DomainName params)) entries
               else entries)
        in AList.map_entry ptr
             (\<lambda>e. e\<lparr>Expiry := now + int (unat (Ttl hdr)) * Second,
                     CacheFlush := (Class hdr > 32768)\<rparr>) entries)"
| "mainloop_pass1 params now entries (RR_SRV hdr priority weight port target) =
     (if ServiceInstanceName params \<noteq> [] \<and> ServiceInstanceName params \<noteq> Name hdr then entries
      else if \<not> HasSuffix (Name hdr) (ServiceName params) then entries
      else
        let entries =
              (if map_of entries (Name hdr) = None
               then AList.update (Name hdr)
                      (newServiceEntry
                         (trimDot (Replace_by_empty (Name hdr) (ServiceName params) 1))
                         (Service params) (DomainName params)) entries
               else entries)
        in AList.map_entry (Name hdr)
             (\<lambda>e. e\<lparr>HostName := target, Port := int (unat port),
                     Expiry := now + int (unat (Ttl hdr)) * Second,
                     CacheFlush := (Class hdr > 32768)\<rparr>) entries)"
| "mainloop_pass1 params now entries (RR_TXT hdr txt) =
     (if ServiceInstanceName params \<noteq> [] \<and> ServiceInstanceName params \<noteq> Name hdr then entries
      else if \<not> HasSuffix (Name hdr) (ServiceName params) then entries
      else
        let entries =
              (if map_of entries (Name hdr) = None
               then AList.update (Name hdr)
                      (newServiceEntry
                         (trimDot (Replace_by_empty (Name hdr) (ServiceName params) 1))
                         (Service params) (DomainName params)) entries
               else entries)
        in AList.map_entry (Name hdr)
             (\<lambda>e. e\<lparr>Text := txt,
                     Expiry := now + int (unat (Ttl hdr)) * Second,
                     CacheFlush := (Class hdr > 32768)\<rparr>) entries)"
| "mainloop_pass1 params now entries (RR_A hdr a) = entries"
| "mainloop_pass1 params now entries (RR_AAAA hdr aaaa) = entries"
| "mainloop_pass1 params now entries (RR_Other hdr) = entries"

text \<open>The second loop over the sections, for one record.\<close>

fun mainloop_pass2 :: "(string \<times> ServiceEntry) list \<Rightarrow> RR \<Rightarrow> (string \<times> ServiceEntry) list" where
  "mainloop_pass2 entries (RR_A hdr a) =
     map (\<lambda>(k, e). if HostName e = Name hdr then (k, e\<lparr>AddrIPv4 := AddrIPv4 e @ [a]\<rparr>)
                    else (k, e)) entries"
| "mainloop_pass2 entries (RR_AAAA hdr aaaa) =
     map (\<lambda>(k, e). if HostName e = Name hdr then (k, e\<lparr>AddrIPv6 := AddrIPv6 e @ [aaaa]\<rparr>)
                    else (k, e)) entries"
| "mainloop_pass2 entries (RR_PTR hdr ptr) = entries"
| "mainloop_pass2 entries (RR_SRV hdr priority weight port target) = entries"
| "mainloop_pass2 entries (RR_TXT hdr txt) = entries"
| "mainloop_pass2 entries (RR_Other hdr) = entries"

text \<open>
  The loop over \<open>entries\<close> that delivers: the entries sent on \<open>params.Entries\<close>, in
  order, and the new \<open>sentEntries\<close>.
\<close>

fun mainloop_deliver ::
  "int \<Rightarrow> (string \<times> ServiceEntry) list \<Rightarrow> (string \<rightharpoonup> ServiceEntry)
     \<Rightarrow> ServiceEntry list \<times> (string \<rightharpoonup> ServiceEntry)" where
  "mainloop_deliver now [] sentEntries = ([], sentEntries)"
| "mainloop_deliver now ((k, e) # entries) sentEntries =
     (if \<not> Expiry e > now then mainloop_deliver now entries (sentEntries(k := None))
      else if (case sentEntries k of
                 None \<Rightarrow> False
               | Some entry \<Rightarrow> \<not> Expiry e > Expiry entry + (- 1 * Minute) \<and> \<not> CacheFlush e)
      then mainloop_deliver now entries sentEntries
      else
        (case mainloop_deliver now entries (sentEntries(k \<mapsto> e)) of
           (sent, sentEntries) \<Rightarrow> (e # sent, sentEntries)))"

definition mainloop_msg ::
  "'a lookupParams_scheme \<Rightarrow> int \<Rightarrow> Msg \<Rightarrow> (string \<rightharpoonup> ServiceEntry)
     \<Rightarrow> ServiceEntry list \<times> (string \<rightharpoonup> ServiceEntry)" where
  "mainloop_msg params now msg sentEntries =
     (let sections = Answer msg @ Ns msg;
          sections = sections @ Extra msg;
          entries = foldl (mainloop_pass1 params now) [] sections;
          entries = foldl mainloop_pass2 entries sections
      in mainloop_deliver now entries sentEntries)"

section \<open>Statements about records, and a concrete service\<close>

text \<open>
  What the cache-flush bit (\<open>0x8000\<close> in the class) of a record of a lookup answer
  is, by the kind of the record.
\<close>

fun lookup_cache_flush :: "bool \<Rightarrow> RR \<Rightarrow> bool" where
  "lookup_cache_flush flushCache (RR_SRV h priority weight port target) =
     (Rrtype h = TypeSRV \<and> Class h AND 0x8000 \<noteq> 0)"
| "lookup_cache_flush flushCache (RR_TXT h txt) =
     (Rrtype h = TypeTXT \<and> Class h AND 0x8000 \<noteq> 0)"
| "lookup_cache_flush flushCache (RR_A h a) =
     (Rrtype h = TypeA \<and> (Class h AND 0x8000 \<noteq> 0) = flushCache)"
| "lookup_cache_flush flushCache (RR_AAAA h aaaa) =
     (Rrtype h = TypeAAAA \<and> (Class h AND 0x8000 \<noteq> 0) = flushCache)"
| "lookup_cache_flush flushCache (RR_PTR h ptr) =
     (Rrtype h = TypePTR \<and> Class h AND 0x8000 = 0)"
| "lookup_cache_flush flushCache (RR_Other h) = False"

text \<open>
  The TTL of a record under the TTL \<open>t\<close> it was composed with: A and AAAA carry
  120 when \<open>t > 0\<close> and 0 otherwise, PTR, SRV and TXT carry \<open>t\<close>. The records of
  a message are those of its three sections.
\<close>

fun rr_ttl :: "uint32 \<Rightarrow> RR \<Rightarrow> bool" where
  "rr_ttl t (RR_A h a) = (Rrtype h = TypeA \<and> Ttl h = (if t > 0 then 120 else 0))"
| "rr_ttl t (RR_AAAA h aaaa) = (Rrtype h = TypeAAAA \<and> Ttl h = (if t > 0 then 120 else 0))"
| "rr_ttl t (RR_PTR h ptr) = (Rrtype h = TypePTR \<and> Ttl h = t)"
| "rr_ttl t (RR_SRV h priority weight port target) = (Rrtype h = TypeSRV \<and> Ttl h = t)"
| "rr_ttl t (RR_TXT h txt) = (Rrtype h = TypeTXT \<and> Ttl h = t)"
| "rr_ttl t (RR_Other h) = False"

definition msg_records :: "Msg \<Rightarrow> RR list" where
  "msg_records m = Answer m @ Ns m @ Extra m"

definition msg_ttl :: "uint32 \<Rightarrow> Msg \<Rightarrow> bool" where
  "msg_ttl t m = (\<forall>rr\<in>set (msg_records m). rr_ttl t rr)"

text \<open>A record with its TTL replaced.\<close>

fun with_Ttl :: "uint32 \<Rightarrow> RR \<Rightarrow> RR" where
  "with_Ttl t (RR_PTR h ptr) = RR_PTR (h\<lparr>Ttl := t\<rparr>) ptr"
| "with_Ttl t (RR_SRV h priority weight port target) =
     RR_SRV (h\<lparr>Ttl := t\<rparr>) priority weight port target"
| "with_Ttl t (RR_TXT h txt) = RR_TXT (h\<lparr>Ttl := t\<rparr>) txt"
| "with_Ttl t (RR_A h a) = RR_A (h\<lparr>Ttl := t\<rparr>) a"
| "with_Ttl t (RR_AAAA h aaaa) = RR_AAAA (h\<lparr>Ttl := t\<rparr>) aaaa"
| "with_Ttl t (RR_Other h) = RR_Other (h\<lparr>Ttl := t\<rparr>)"

text \<open>
  The header of a response as RFC 6762 has it: QR and AA set, RD clear, no question.
\<close>

definition reply_header :: "Msg \<Rightarrow> bool" where
  "reply_header m =
     (Response m \<and> Authoritative m \<and> \<not> RecursionDesired m \<and> length (Question m) = 0)"


text \<open>
  The records of a message as the library unpacks it: a record whose header says PTR
  is a \<open>*dns.PTR\<close>.
\<close>

definition unpacked :: "RR list \<Rightarrow> bool" where
  "unpacked rrs = (\<forall>rr\<in>set rrs. Rrtype (Header rr) = TypePTR \<longrightarrow> (\<exists>h ptr. rr = RR_PTR h ptr))"

text \<open>
  The calls of \<open>parsePacket\<close> that a sequence of reads asks for: one for every
  datagram read, in order.
\<close>

fun parsePacket_calls :: "ReadResult list \<Rightarrow> (8 word list \<times> int \<times> NetAddr) list" where
  "parsePacket_calls [] = []"
| "parsePacket_calls (ReadError # reads) = parsePacket_calls reads"
| "parsePacket_calls (ReadOk packet cm from # reads) =
     (packet, (case cm of None \<Rightarrow> 0 | Some ifIndex \<Rightarrow> ifIndex), from) # parsePacket_calls reads"

text \<open>
  What the registration functions do to the host name: \<open>host\<close> is the name given (or
  the one of the operating system), \<open>d\<close> the domain of the entry. A host whose
  trimmed name ends with \<open>d\<close> is kept as it is; any other gets the trimmed domain
  appended, between two dots.
\<close>

definition hostname_rule :: "string \<Rightarrow> string \<Rightarrow> string \<Rightarrow> bool" where
  "hostname_rule host d hostName =
     (if HasSuffix (trimDot host) d then hostName = host
      else hostName = trimDot host @ ''.'' @ trimDot d @ ''.''
           \<and> HasSuffix hostName (''.'' @ trimDot d @ ''.''))"

text \<open>
  Whether a record is a \<open>*dns.SRV\<close>, and an entry whose host name and port were
  never set: they have the zero values \<open>newServiceEntry\<close> gave them.
\<close>

fun is_SRV :: "RR \<Rightarrow> bool" where
  "is_SRV (RR_SRV hdr priority weight port target) = True"
| "is_SRV (RR_PTR hdr ptr) = False"
| "is_SRV (RR_TXT hdr txt) = False"
| "is_SRV (RR_A hdr a) = False"
| "is_SRV (RR_AAAA hdr aaaa) = False"
| "is_SRV (RR_Other hdr) = False"

definition host_unset :: "ServiceEntry \<Rightarrow> bool" where
  "host_unset e = (HostName e = [] \<and> Port e = 0)"

definition all_host_unset :: "(string \<times> ServiceEntry) list \<Rightarrow> bool" where
  "all_host_unset entries = (\<forall>x\<in>set entries. host_unset (snd x))"

definition ptr_txt_msg :: Msg where
  "ptr_txt_msg =
     new_Msg\<lparr>Response := True,
             Answer := [RR_PTR \<lparr>Name = ''_ipp._tcp.local.'', Rrtype = 12, Class = 1,
                                 Ttl = 3200\<rparr> ''Printer._ipp._tcp.local.''],
             Extra := [RR_TXT \<lparr>Name = ''Printer._ipp._tcp.local.'', Rrtype = 16,
                                Class = 32769, Ttl = 3200\<rparr> [''rp=ipp/print''],
                       RR_A \<lparr>Name = ''myhost.local.'', Rrtype = 1, Class = 32769,
                              Ttl = 120\<rparr> [192, 168, 1, 10]]\<rparr>"

text \<open>
  The service of the first scenario: instance \<open>Printer\<close> of \<open>_ipp._tcp\<close> in
  \<open>local\<close>, port 631, on a host with one IPv4 address.
\<close>

definition example_env :: Env where
  "example_env =
     \<lparr>Hostname = Some ''myhost'', listMulticastInterfaces = [],
      InterfaceByIndex = (\<lambda>i. None), joinUdp4Multicast = (\<lambda>ifaces. True),
      joinUdp6Multicast = (\<lambda>ifaces. True), ParseIP = (\<lambda>ip. None),
      To4 = (\<lambda>ip. length ip = 4), To16 = (\<lambda>ip. length ip = 4 \<or> length ip = 16),
      IsLoopback = (\<lambda>ip. False), IsGlobalUnicast = (\<lambda>ip. True),
      IsLinkLocalUnicast = (\<lambda>ip. False),
      Unpack = (\<lambda>packet. if packet = [] then None
                          else Some (new_Msg\<lparr>MsgId := of_nat (length packet)\<rparr>))\<rparr>"

definition printer_entry :: ServiceEntry where
  "printer_entry =
     \<lparr>Instance = ''Printer'', Service = ''_ipp._tcp'', DomainName = ''local'',
      Subtypes = [''_universal''], HostName = ''myhost.local.'', Port = 631,
      Text = [''rp=ipp/print''], Expiry = 0, AddrIPv4 = [[192, 168, 1, 10]], AddrIPv6 = [],
      CacheFlush = False\<rparr>"

definition printer_server :: Server where
  "printer_server =
     \<lparr>s_service = Some printer_entry, s_ipv4conn = True, s_ipv6conn = True,
      s_ifaces = [\<lparr>Index = 2, IfaceName = ''eth0'', Addrs = []\<rparr>], s_isShutdown = False,
      s_ttl = 3200\<rparr>"

text \<open>
  The third scenario: a PTR question for \<open>_ipp._tcp.local.\<close> with the top bit of
  its class set, from a querier on the link.
\<close>

definition browse_query :: Msg where
  "browse_query =
     new_Msg\<lparr>Question := [\<lparr>QName = ''_ipp._tcp.local.'', Qtype = 12, Qclass = 0x8001\<rparr>]\<rparr>"

definition querier :: NetAddr where
  "querier = UDPAddr [192, 168, 1, 20] 5353"

text \<open>
  Two queries that carry the responder's PTR record as a known answer: a lookup of
  the instance, and a browse of the service with half the TTL left.
\<close>

definition known_lookup_query :: Msg where
  "known_lookup_query =
     new_Msg\<lparr>Question := [\<lparr>QName = ''Printer._ipp._tcp.local.'', Qtype = 255, Qclass = 1\<rparr>],
             Answer := [RR_PTR \<lparr>Name = ''_ipp._tcp.local.'', Rrtype = 12, Class = 1,
                                 Ttl = 3200\<rparr> ''Printer._ipp._tcp.local.'']\<rparr>"

definition known_browse_query :: Msg where
  "known_browse_query =
     new_Msg\<lparr>Question := [\<lparr>QName = ''_ipp._tcp.local.'', Qtype = 12, Qclass = 1\<rparr>],
             Answer := [RR_PTR \<lparr>Name = ''_ipp._tcp.local.'', Rrtype = 12, Class = 1,
                                 Ttl = 1600\<rparr> ''Printer._ipp._tcp.local.'']\<rparr>"

text \<open>A datagram of three bytes, received on interface 2.\<close>

definition datagram :: ReadResult where
  "datagram = ReadOk [1, 2, 3] (Some 2) querier"

text \<open>An interface with the address of the printer's host.\<close>

definition eth0 :: Interface where
  "eth0 = \<lparr>Index = 2, IfaceName = ''eth0'', Addrs = [IPNet [192, 168, 1, 10]]\<rparr>"

text \<open>
  A browse for \<open>_ipp._tcp\<close> in \<open>local\<close>, and two responses to it without an SRV
  record: a PTR alone, and a PTR with a TXT and an A record.
\<close>

definition browse_params :: lookupParams where
  "browse_params =
     \<lparr>Instance = [], Service = ''_ipp._tcp'', DomainName = ''local'', Subtypes = [],
      isBrowsing = True\<rparr>"

definition ptr_only_msg :: Msg where
  "ptr_only_msg =
     new_Msg\<lparr>Response := True,
             Answer := [RR_PTR \<lparr>Name = ''_ipp._tcp.local.'', Rrtype = 12, Class = 1,
                                 Ttl = 3200\<rparr> ''Printer._ipp._tcp.local.'']\<rparr>"

text \<open>
  A proxy for the printer, registered without addresses on \<open>eth0\<close>, where
  \<open>net.InterfaceByIndex\<close> knows the index 2 alone; the records of its lookup answer
  under a TTL, and the A record of the address of \<open>eth0\<close>.
\<close>

definition proxy_env :: Env where
  "proxy_env = example_env\<lparr>InterfaceByIndex := (\<lambda>i. if i = 2 then Some eth0 else None)\<rparr>"

definition proxy_entry :: ServiceEntry where
  "proxy_entry =
     \<lparr>Instance = ''Printer'', Service = ''_ipp._tcp'', DomainName = ''local'',
      Subtypes = [], HostName = ''myhost.local.'', Port = 631,
      Text = [''rp=ipp/print''], Expiry = 0, AddrIPv4 = [], AddrIPv6 = [],
      CacheFlush = False\<rparr>"

definition proxy_server :: Server where
  "proxy_server =
     \<lparr>s_service = Some proxy_entry, s_ipv4conn = True, s_ipv6conn = True,
      s_ifaces = [eth0], s_isShutdown = False, s_ttl = 3200\<rparr>"

definition proxy_records :: "uint32 \<Rightarrow> RR list" where
  "proxy_records t =
     [RR_SRV \<lparr>Name = ''Printer._ipp._tcp.local.'', Rrtype = 33, Class = 0x8001, Ttl = t\<rparr>
        0 0 631 ''myhost.local.'',
      RR_TXT \<lparr>Name = ''Printer._ipp._tcp.local.'', Rrtype = 16, Class = 0x8001, Ttl = t\<rparr>
        [''rp=ipp/print''],
      RR_PTR \<lparr>Name = ''_ipp._tcp.local.'', Rrtype = 12, Class = 1, Ttl = t\<rparr>
        ''Printer._ipp._tcp.local.'',
      RR_PTR \<lparr>Name = ''_services._dns-sd._udp.local.'', Rrtype = 12, Class = 1, Ttl = t\<rparr>
        ''_ipp._tcp.local.'']"

definition proxy_address :: "uint32 \<Rightarrow> RR" where
  "proxy_address t =
     RR_A \<lparr>Name = ''myhost.local.'', Rrtype = 1, Class = 0x8001, Ttl = t\<rparr> [192, 168, 1, 10]"

text \<open>
  A string of \<open>n\<close> copies of U+00E9 (\<open>0xC3 0xA9\<close> in UTF-8): two bytes per rune.
\<close>

definition e_acute :: "nat \<Rightarrow> string" where
  "e_acute n = concat (replicate n [CHR 0xC3, CHR 0xA9])"

section \<open>Properties of \<open>chunks\<close>\<close>

lemma chunks_loop_concat:
  "currentStart \<le> i \<Longrightarrow> currentStart \<le> length s \<Longrightarrow> concat acc = take currentStart s \<Longrightarrow>
   \<exists>ys. chunks_loop s n i cl currentStart acc = Inr ys \<and> concat ys = s"
proof (induction s n i cl currentStart acc rule: chunks_loop.induct)
  case (1 s chunkSize i currentLen currentStart acc)
  show ?case
  proof (cases "i < length s")
    case False
    have "slice s currentStart (length s) = Inr (drop currentStart s)"
      using "1.prems"(2) by (simp add: slice_def)
    with False "1.prems" show ?thesis
      by (simp add: chunks_loop.simps [of s chunkSize i])
  next
    case True
    note lt = this
    show ?thesis
    proof (cases "currentLen = chunkSize")
      case False
      have "currentStart \<le> range_next s i"
        using "1.prems"(1) range_next_gt [of i s] by simp
      from "1.IH"(2) [OF lt False this "1.prems"(2,3)] lt False show ?thesis
        by (simp add: chunks_loop.simps [of s chunkSize i])
    next
      case True
      have sl: "slice s currentStart i = Inr (take (i - currentStart) (drop currentStart s))"
        using "1.prems"(1) lt by (simp add: slice_def)
      have le: "i \<le> range_next s i"
        using range_next_gt [of i s] by simp
      have le2: "i \<le> length s"
        using lt by simp
      have "take currentStart s @ take (i - currentStart) (drop currentStart s) = take i s"
        using "1.prems"(1) by (metis le_add_diff_inverse take_add)
      then have cc: "concat (acc @ [take (i - currentStart) (drop currentStart s)]) = take i s"
        using "1.prems"(3) by simp
      from "1.IH"(1) [OF lt True sl le le2 cc] lt True sl show ?thesis
        by (simp add: chunks_loop.simps [of s chunkSize i])
    qed
  qed
qed

lemma go_div_nonneg: "0 \<le> a \<Longrightarrow> 0 < b \<Longrightarrow> 0 \<le> go_div a b"
  by (simp add: go_div_def sgn_if pos_imp_zdiv_nonneg_iff)

lemma e_acute_Suc: "e_acute (Suc n) = CHR 0xC3 # CHR 0xA9 # e_acute n"
  by (simp add: e_acute_def)

lemma length_e_acute: "length (e_acute n) = 2 * n"
  by (induction n) (simp_all add: e_acute_Suc, simp add: e_acute_def)

lemma drop_e_acute: "k \<le> n \<Longrightarrow> drop (2 * k) (e_acute n) = e_acute (n - k)"
proof (induction k arbitrary: n)
  case 0
  then show ?case by simp
next
  case (Suc k)
  then obtain m where n: "n = Suc m" by (cases n) simp_all
  with Suc show ?case by (simp add: e_acute_Suc)
qed

lemma take_e_acute: "k \<le> n \<Longrightarrow> take (2 * k) (e_acute n) = e_acute k"
proof (induction k arbitrary: n)
  case 0
  then show ?case by (simp add: e_acute_def)
next
  case (Suc k)
  then obtain m where n: "n = Suc m" by (cases n) simp_all
  with Suc show ?case by (simp add: e_acute_Suc)
qed

lemma range_next_e_acute:
  assumes "k < n"
  shows "range_next (e_acute n) (2 * k) = 2 * k + 2"
proof -
  obtain m where m: "n - k = Suc m" using assms by (cases "n - k") simp_all
  have d: "drop (2 * k) (e_acute n) = CHR 0xC3 # CHR 0xA9 # e_acute m"
    using drop_e_acute [of k n] assms m by (simp add: e_acute_Suc)
  have lt: "2 * k < length (e_acute n)"
    using assms by (simp add: length_e_acute)
  have "e_acute n ! (2 * k) = hd (drop (2 * k) (e_acute n))"
    using lt by (simp add: hd_drop_conv_nth)
  then have b0: "e_acute n ! (2 * k) = CHR 0xC3"
    using d by simp
  show ?thesis
    using lt d b0 by (simp add: range_next_def decoderune_def byte_def is_cont_def)
qed

lemma chunks_loop_e_acute_run:
  "k \<le> m \<Longrightarrow> m \<le> n \<Longrightarrow> cl + int (m - k) \<le> c \<Longrightarrow>
   chunks_loop (e_acute n) c (2 * k) cl cs acc
     = chunks_loop (e_acute n) c (2 * m) (cl + int (m - k)) cs acc"
proof (induction m)
  case 0
  then show ?case by simp
next
  case (Suc m)
  show ?case
  proof (cases "k = Suc m")
    case True
    then show ?thesis by simp
  next
    case False
    with Suc.prems have km: "k \<le> m" and mn: "m < n" and ne: "cl + int (m - k) \<noteq> c"
      and le: "cl + int (m - k) \<le> c"
      by simp_all
    have "chunks_loop (e_acute n) c (2 * k) cl cs acc
            = chunks_loop (e_acute n) c (2 * m) (cl + int (m - k)) cs acc"
      using Suc.IH km mn le by simp
    also have "\<dots> = chunks_loop (e_acute n) c (2 * m + 2) (cl + int (m - k) + 1) cs acc"
      using mn ne range_next_e_acute [of m n]
      by (simp add: chunks_loop.simps [of "e_acute n" c "2 * m"] length_e_acute)
    also have "cl + int (m - k) + 1 = cl + int (Suc m - k)"
      using km by simp
    finally show ?thesis by simp
  qed
qed

lemma chunks_e_acute:
  assumes "0 < c" and "c < n" and "n \<le> 2 * c"
  shows "chunks (e_acute n) (int c) = Inr [e_acute c, e_acute (n - c)]"
proof -
  let ?s = "e_acute n"
  have len: "length ?s = 2 * n" by (rule length_e_acute)
  have cap: "\<not> go_div (int (length ?s) - 1) (int c) + 1 < 0"
    using go_div_nonneg [of "int (length ?s) - 1" "int c"] assms by (simp add: len)
  have "chunks ?s (int c) = chunks_loop ?s (int c) 0 0 0 []"
    using assms cap by (simp add: chunks_def len)
  also have "\<dots> = chunks_loop ?s (int c) (2 * c) (int c) 0 []"
    using chunks_loop_e_acute_run [of 0 c n 0 "int c" 0 "[]"] assms by simp
  also have "\<dots> = chunks_loop ?s (int c) (2 * c + 2) 1 (2 * c) [e_acute c]"
    using assms range_next_e_acute [of c n] take_e_acute [of c n]
    by (simp add: chunks_loop.simps [of ?s "int c" "2 * c"] len slice_def)
  also have "\<dots> = chunks_loop ?s (int c) (2 * n) (1 + int (n - Suc c)) (2 * c) [e_acute c]"
    using chunks_loop_e_acute_run [of "Suc c" n n 1 "int c" "2 * c" "[e_acute c]"] assms by simp
  also have "\<dots> = Inr [e_acute c, e_acute (n - c)]"
    using assms drop_e_acute [of c n]
    by (simp add: chunks_loop.simps [of ?s "int c" "2 * n"] len slice_def length_e_acute)
  finally show ?thesis .
qed

text \<open>
  Claim C9: every element of \<open>chunks(s, 255)\<close> is at most 255 bytes long.
  The loop counts runes, not bytes: on 256 copies of U+00E9 (512 bytes) the first
  chunk holds 255 runes, that is 510 bytes.
\<close>

theorem chunks_255_first_chunk_510_bytes:
  "chunks (e_acute 256) 255 = Inr [e_acute 255, e_acute 1] \<and> length (e_acute 255) = 510"
  using chunks_e_acute [of 255 256] by (simp add: length_e_acute)

text \<open>
  Claim C10: for every string \<open>s\<close> and every \<open>chunkSize \<ge> 1\<close>, \<open>chunks\<close> returns
  (it does not panic) and the concatenation of the returned list, in order, is \<open>s\<close>.
\<close>

theorem chunks_concat:
  assumes "1 \<le> chunkSize"
  shows "\<exists>ys. chunks s chunkSize = Inr ys \<and> concat ys = s"
proof (cases "s = []")
  case True
  then show ?thesis by (simp add: chunks_def)
next
  case False
  then have "0 \<le> int (length s) - 1" by (cases s) simp_all
  then have cap: "\<not> go_div (int (length s) - 1) chunkSize + 1 < 0"
    using go_div_nonneg [of "int (length s) - 1" chunkSize] assms by simp
  show ?thesis
  proof (cases "chunkSize \<ge> int (length s)")
    case True
    with False show ?thesis by (simp add: chunks_def)
  next
    case big: False
    have "chunks s chunkSize = chunks_loop s chunkSize 0 0 0 []"
      using False big cap assms by (simp add: chunks_def)
    then show ?thesis
      using chunks_loop_concat [of 0 0 s "[]" chunkSize 0] by simp
  qed
qed

theorem chunks_concat_witness:
  "(1::int) \<le> 3 \<and> (\<exists>ys. chunks ''abcdefg'' 3 = Inr ys \<and> concat ys = ''abcdefg'')"
  using chunks_concat [of 3 "''abcdefg''"] by simp

section \<open>Properties of the responder\<close>

lemmas example_defs =
  example_env_def printer_entry_def printer_server_def new_Msg_def
  ServiceName_def ServiceInstanceName_def ServiceTypeName_def TxtRecords_def chunks_def
  TypeA_def TypePTR_def TypeTXT_def TypeAAAA_def TypeSRV_def ClassINET_def
  qClassCacheFlush_def

lemma appendAddrs_shape:
  "\<exists>v4 v6. appendAddrs env s e list t ifIndex flushCache =
     list
     @ map (RR_A \<lparr>Name = HostName e, Rrtype = TypeA,
                   Class = ClassINET OR (if flushCache then qClassCacheFlush else 0),
                   Ttl = (if t > 0 then 120 else t)\<rparr>) v4
     @ map (RR_AAAA \<lparr>Name = HostName e, Rrtype = TypeAAAA,
                      Class = ClassINET OR (if flushCache then qClassCacheFlush else 0),
                      Ttl = (if t > 0 then 120 else t)\<rparr>) v6"
  unfolding appendAddrs_def Let_def
  by (simp split: prod.splits option.splits) blast

lemma class_flush_set: "(ClassINET OR qClassCacheFlush) AND 0x8000 \<noteq> 0"
  by (simp add: ClassINET_def qClassCacheFlush_def)

lemma class_flush_clear: "ClassINET AND 0x8000 = 0" "(ClassINET OR 0) AND 0x8000 = 0"
  by (simp_all add: ClassINET_def)

text \<open>
  Claim C1, as amended: in every message composed by \<open>composeLookupAnswers\<close> the
  cache-flush bit is set on the SRV and TXT records whatever \<open>flushCache\<close> is, is
  set on the A and AAAA records if and only if \<open>flushCache\<close> is true, and is
  never set on a PTR record. The records are appended to the Answer section and the
  Additional section is left alone.
\<close>

theorem composeLookupAnswers_cache_flush:
  "\<exists>added. Answer (composeLookupAnswers env s e resp t ifIndex flushCache) = Answer resp @ added
           \<and> Extra (composeLookupAnswers env s e resp t ifIndex flushCache) = Extra resp
           \<and> (\<forall>rr\<in>set added. lookup_cache_flush flushCache rr)"
proof -
  let ?srv = "RR_SRV \<lparr>Name = ServiceInstanceName e, Rrtype = TypeSRV,
                       Class = ClassINET OR qClassCacheFlush, Ttl = t\<rparr>
                0 0 (word_of_int (Port e)) (HostName e)"
  let ?txt = "RR_TXT \<lparr>Name = ServiceInstanceName e, Rrtype = TypeTXT,
                       Class = ClassINET OR qClassCacheFlush, Ttl = t\<rparr> (TxtRecords e)"
  let ?ptr = "RR_PTR \<lparr>Name = ServiceName e, Rrtype = TypePTR, Class = ClassINET,
                       Ttl = t\<rparr> (ServiceInstanceName e)"
  let ?dnssd = "RR_PTR \<lparr>Name = ServiceTypeName e, Rrtype = TypePTR, Class = ClassINET,
                         Ttl = t\<rparr> (ServiceName e)"
  let ?subs = "map (\<lambda>subtype. RR_PTR \<lparr>Name = subtype, Rrtype = TypePTR,
                              Class = ClassINET, Ttl = t\<rparr> (ServiceInstanceName e)) (Subtypes e)"
  let ?list = "Answer resp @ [?srv, ?txt, ?ptr, ?dnssd] @ ?subs"
  obtain v4 v6 where app: "appendAddrs env s e ?list t ifIndex flushCache =
     ?list
     @ map (RR_A \<lparr>Name = HostName e, Rrtype = TypeA,
                   Class = ClassINET OR (if flushCache then qClassCacheFlush else 0),
                   Ttl = (if t > 0 then 120 else t)\<rparr>) v4
     @ map (RR_AAAA \<lparr>Name = HostName e, Rrtype = TypeAAAA,
                      Class = ClassINET OR (if flushCache then qClassCacheFlush else 0),
                      Ttl = (if t > 0 then 120 else t)\<rparr>) v6"
    using appendAddrs_shape by blast
  let ?added = "[?srv, ?txt, ?ptr, ?dnssd] @ ?subs
     @ map (RR_A \<lparr>Name = HostName e, Rrtype = TypeA,
                   Class = ClassINET OR (if flushCache then qClassCacheFlush else 0),
                   Ttl = (if t > 0 then 120 else t)\<rparr>) v4
     @ map (RR_AAAA \<lparr>Name = HostName e, Rrtype = TypeAAAA,
                      Class = ClassINET OR (if flushCache then qClassCacheFlush else 0),
                      Ttl = (if t > 0 then 120 else t)\<rparr>) v6"
  have a: "Answer (composeLookupAnswers env s e resp t ifIndex flushCache) = Answer resp @ ?added"
    using app by (simp add: composeLookupAnswers_def Let_def)
  have b: "Extra (composeLookupAnswers env s e resp t ifIndex flushCache) = Extra resp"
    by (simp add: composeLookupAnswers_def Let_def)
  have c: "\<forall>rr\<in>set ?added. lookup_cache_flush flushCache rr"
    using class_flush_set class_flush_clear by auto
  from a b c show ?thesis by blast
qed


theorem composeLookupAnswers_cache_flush_witness:
  "\<exists>added. added \<noteq> []
     \<and> Answer (composeLookupAnswers example_env printer_server printer_entry new_Msg 3200 2 True)
         = Answer new_Msg @ added
     \<and> list_all (lookup_cache_flush True) added"
  using composeLookupAnswers_cache_flush
          [of example_env printer_server printer_entry new_Msg 3200 2 True]
  by (auto simp: list_all_iff composeLookupAnswers_def appendAddrs_def example_defs)

text \<open>
  The claim as stated fails: with \<open>flushCache = false\<close>, as in the reply to an
  instance lookup, the SRV record still carries class \<open>0x8001\<close>.
\<close>

theorem composeLookupAnswers_srv_flush_counterexample:
  "hd (Answer (composeLookupAnswers example_env printer_server printer_entry new_Msg 3200 2 False))
     = RR_SRV \<lparr>Name = ''Printer._ipp._tcp.local.'', Rrtype = 33, Class = 0x8001, Ttl = 3200\<rparr>
         0 0 631 ''myhost.local.''
   \<and> (0x8001 :: uint16) AND 0x8000 \<noteq> 0"
  by (simp add: composeLookupAnswers_def appendAddrs_def example_defs)

lemmas responder_defs =
  handleQuery_def handleQuery_body_def handleQuery_resp_def SetReply_def handleQuestion_def
  clearKnownAnswer_def isKnownAnswer_def composeBrowsingAnswers_def composeLookupAnswers_def
  serviceTypeName_def appendAddrs_def isUnicastQuestion_def probe_def probe_query_def
  probe_announcement_def announceText_def SetText_def unregister_def multicastRepetitions_def
  OpcodeQuery_def RcodeSuccess_def

lemma appendAddrs_ttl:
  assumes "\<forall>rr\<in>set list. rr_ttl t rr"
  shows "\<forall>rr\<in>set (appendAddrs env s e list t ifIndex flushCache). rr_ttl t rr"
proof -
  obtain v4 v6 where "appendAddrs env s e list t ifIndex flushCache =
     list
     @ map (RR_A \<lparr>Name = HostName e, Rrtype = TypeA,
                   Class = ClassINET OR (if flushCache then qClassCacheFlush else 0),
                   Ttl = (if t > 0 then 120 else t)\<rparr>) v4
     @ map (RR_AAAA \<lparr>Name = HostName e, Rrtype = TypeAAAA,
                      Class = ClassINET OR (if flushCache then qClassCacheFlush else 0),
                      Ttl = (if t > 0 then 120 else t)\<rparr>) v6"
    using appendAddrs_shape by blast
  then show ?thesis using assms by (auto simp: word_gt_0)
qed

lemma composeBrowsingAnswers_ttl:
  assumes "msg_ttl (s_ttl s) resp"
  shows "msg_ttl (s_ttl s) (composeBrowsingAnswers env s e resp ifIndex)"
proof -
  have "\<forall>rr\<in>set (Extra resp @ [RR_SRV \<lparr>Name = ServiceInstanceName e, Rrtype = TypeSRV,
              Class = ClassINET, Ttl = s_ttl s\<rparr> 0 0 (word_of_int (Port e)) (HostName e),
            RR_TXT \<lparr>Name = ServiceInstanceName e, Rrtype = TypeTXT, Class = ClassINET,
              Ttl = s_ttl s\<rparr> (TxtRecords e)]). rr_ttl (s_ttl s) rr"
    using assms by (auto simp: msg_ttl_def msg_records_def)
  from appendAddrs_ttl [OF this] assms show ?thesis
    by (auto simp: msg_ttl_def msg_records_def composeBrowsingAnswers_def Let_def)
qed

lemma composeLookupAnswers_ttl:
  assumes "msg_ttl t resp"
  shows "msg_ttl t (composeLookupAnswers env s e resp t ifIndex flushCache)"
proof -
  let ?list = "Answer resp
      @ [RR_SRV \<lparr>Name = ServiceInstanceName e, Rrtype = TypeSRV,
                  Class = ClassINET OR qClassCacheFlush, Ttl = t\<rparr>
            0 0 (word_of_int (Port e)) (HostName e),
         RR_TXT \<lparr>Name = ServiceInstanceName e, Rrtype = TypeTXT,
                  Class = ClassINET OR qClassCacheFlush, Ttl = t\<rparr> (TxtRecords e),
         RR_PTR \<lparr>Name = ServiceName e, Rrtype = TypePTR, Class = ClassINET,
                  Ttl = t\<rparr> (ServiceInstanceName e),
         RR_PTR \<lparr>Name = ServiceTypeName e, Rrtype = TypePTR, Class = ClassINET,
                  Ttl = t\<rparr> (ServiceName e)]
      @ map (\<lambda>subtype. RR_PTR \<lparr>Name = subtype, Rrtype = TypePTR,
                              Class = ClassINET, Ttl = t\<rparr> (ServiceInstanceName e)) (Subtypes e)"
  have "\<forall>rr\<in>set ?list. rr_ttl t rr"
    using assms by (auto simp: msg_ttl_def msg_records_def)
  from appendAddrs_ttl [OF this] assms show ?thesis
    by (auto simp: msg_ttl_def msg_records_def composeLookupAnswers_def Let_def)
qed

lemma serviceTypeName_ttl:
  "msg_ttl t resp \<Longrightarrow> msg_ttl t (serviceTypeName s e resp t)"
  by (auto simp: msg_ttl_def msg_records_def serviceTypeName_def Let_def)

lemma clearKnownAnswer_ttl:
  "clearKnownAnswer resp query = Inr r \<Longrightarrow> msg_ttl t resp \<Longrightarrow> msg_ttl t r"
  by (auto simp: clearKnownAnswer_def msg_ttl_def msg_records_def split: sum.splits if_splits)

lemma handleQuestion_subtypes_ttl:
  "handleQuestion_subtypes env s e q resp query ifIndex subs = Inr r \<Longrightarrow>
   msg_ttl (s_ttl s) resp \<Longrightarrow> msg_ttl (s_ttl s) r"
proof (induction subs)
  case Nil
  then show ?case by simp
next
  case (Cons sub subs)
  then show ?case
    by (auto simp: Let_def split: if_splits
             intro: clearKnownAnswer_ttl composeBrowsingAnswers_ttl)
qed

lemma handleQuestion_ttl:
  assumes "handleQuestion env s q resp query ifIndex = Inr r" and "msg_ttl (s_ttl s) resp"
  shows "msg_ttl (s_ttl s) r"
proof (cases "s_service s")
  case None
  with assms show ?thesis by (simp add: handleQuestion_def)
next
  case (Some e)
  with assms show ?thesis
    by (auto simp: handleQuestion_def split: if_splits
             intro: clearKnownAnswer_ttl composeBrowsingAnswers_ttl serviceTypeName_ttl
                    composeLookupAnswers_ttl handleQuestion_subtypes_ttl)
qed

lemma handleQuery_resp_records: "msg_records (handleQuery_resp query) = []"
  by (simp add: handleQuery_resp_def msg_records_def SetReply_def new_Msg_def Let_def)

lemma handleQuery_body_ttl:
  assumes "handleQuery_body env s query ifIndex from q = Inr sends"
  shows "\<forall>sd\<in>set sends. msg_ttl (s_ttl s) (sent_msg sd)"
proof -
  have "msg_ttl (s_ttl s) (handleQuery_resp query)"
    by (simp add: msg_ttl_def handleQuery_resp_records)
  then show ?thesis
    using assms handleQuestion_ttl [of env s q "handleQuery_resp query" query ifIndex]
    by (auto simp: handleQuery_body_def split: sum.splits if_splits)
qed

lemma handleQuery_loop_ttl:
  "handleQuery_loop env s query ifIndex from qs = Inr sends \<Longrightarrow>
   \<forall>sd\<in>set sends. msg_ttl (s_ttl s) (sent_msg sd)"
proof (induction qs arbitrary: sends)
  case Nil
  then show ?case by simp
next
  case (Cons q qs)
  then show ?case
    using handleQuery_body_ttl [of env s query ifIndex "from" q]
    by (auto split: sum.splits)
qed

lemma handleQuery_ttl:
  "handleQuery env s query ifIndex from = Inr sends \<Longrightarrow>
   \<forall>sd\<in>set sends. msg_ttl (s_ttl s) (sent_msg sd)"
  using handleQuery_loop_ttl [of env s query ifIndex "from" "Question query" sends]
  by (auto simp: handleQuery_def split: if_splits)

lemma probe_ttl:
  assumes "probe env s msgId = Inr sends"
  shows "\<forall>sd\<in>set sends. msg_ttl (s_ttl s) (sent_msg sd)"
proof -
  from assms obtain e where e: "s_service s = Some e"
    by (auto simp: probe_def split: option.splits)
  have q: "msg_ttl (s_ttl s) (probe_query s e msgId)"
    by (simp add: msg_ttl_def msg_records_def probe_query_def new_Msg_def Let_def)
  have "msg_ttl (s_ttl s) (new_Msg\<lparr>Response := True, Compress := True, Answer := [], Extra := []\<rparr>)"
    by (simp add: msg_ttl_def msg_records_def new_Msg_def)
  then have a: "msg_ttl (s_ttl s) (sent_msg (probe_announcement env s e intf))" for intf
    using composeLookupAnswers_ttl by (simp add: probe_announcement_def Let_def)
  show ?thesis
    using assms e q a by (auto simp: probe_def split: if_splits)
qed

lemma announceText_ttl:
  assumes "announceText env s = Inr sends"
  shows "\<forall>sd\<in>set sends. msg_ttl (s_ttl s) (sent_msg sd)"
proof -
  have "msg_ttl (s_ttl s) (new_Msg\<lparr>Response := True\<rparr>)"
    by (simp add: msg_ttl_def msg_records_def new_Msg_def)
  then show ?thesis
    using assms composeBrowsingAnswers_ttl
    by (auto simp: announceText_def Let_def split: option.splits)
qed

lemma unregister_ttl:
  assumes "unregister env s = Inr sends"
  shows "\<forall>sd\<in>set sends. msg_ttl 0 (sent_msg sd)"
proof -
  have "msg_ttl 0 (new_Msg\<lparr>Response := True, Answer := [], Extra := []\<rparr>)"
    by (simp add: msg_ttl_def msg_records_def new_Msg_def)
  then show ?thesis
    using assms composeLookupAnswers_ttl
    by (auto simp: unregister_def Let_def split: option.splits)
qed

lemma rr_ttl_0: "rr_ttl 0 rr \<Longrightarrow> Ttl (Header rr) = 0"
  by (cases rr) simp_all


lemma appendAddrs_with_Ttl_0:
  "map (with_Ttl 0) (appendAddrs env s e list t ifIndex flushCache)
     = appendAddrs env s e (map (with_Ttl 0) list) 0 ifIndex flushCache"
  unfolding appendAddrs_def Let_def
  by (simp split: prod.splits option.splits add: comp_def)

lemma goodbye_same_records:
  "map (with_Ttl 0) (Answer (composeLookupAnswers env s e resp t ifIndex flushCache))
     = Answer (composeLookupAnswers env s e (resp\<lparr>Answer := map (with_Ttl 0) (Answer resp)\<rparr>)
                 0 ifIndex flushCache)"
  by (simp add: composeLookupAnswers_def Let_def appendAddrs_with_Ttl_0 comp_def)


lemma composeLookupAnswers_Answer_cong:
  "Answer resp = Answer resp' \<Longrightarrow>
   Answer (composeLookupAnswers env s e resp t ifIndex flushCache)
     = Answer (composeLookupAnswers env s e resp' t ifIndex flushCache)"
  by (simp add: composeLookupAnswers_def Let_def)

lemma composeLookupAnswers_Ns_Extra:
  "Ns (composeLookupAnswers env s e resp t ifIndex flushCache) = Ns resp"
  "Extra (composeLookupAnswers env s e resp t ifIndex flushCache) = Extra resp"
  by (simp_all add: composeLookupAnswers_def Let_def)

lemma SetText_ttl:
  assumes "SetText env s text = Inr (s', sends)"
  shows "\<forall>sd\<in>set sends. msg_ttl (s_ttl s) (sent_msg sd)"
proof -
  from assms obtain e where e: "s_service s = Some e"
    by (auto simp: SetText_def split: option.splits)
  let ?s = "s\<lparr>s_service := Some (e\<lparr>Text := text\<rparr>)\<rparr>"
  from assms e have "announceText env ?s = Inr sends"
    by (auto simp: SetText_def Let_def split: sum.splits)
  from announceText_ttl [OF this] show ?thesis by simp
qed

text \<open>
  The TTLs of the records the responder sends. In every message of \<open>handleQuery\<close>,
  of \<open>probe\<close> and of \<open>SetText\<close> the A and AAAA records carry TTL 120 when the
  configured TTL is above 0 and the PTR, SRV and TXT records carry the configured TTL;
  in the goodbye of \<open>unregister\<close> every record has TTL 0, and its records are those
  of the lookup answer composed for the interface index 0, with the TTL replaced by 0.
\<close>

lemma responder_record_ttls:
  "(handleQuery env s query ifIndex from = Inr replies \<longrightarrow>
      (\<forall>sd\<in>set replies. msg_ttl (s_ttl s) (sent_msg sd)))
   \<and> (probe env s msgId = Inr probes \<longrightarrow>
      (\<forall>sd\<in>set probes. msg_ttl (s_ttl s) (sent_msg sd)))
   \<and> (SetText env s text = Inr (s', announced) \<longrightarrow>
      (\<forall>sd\<in>set announced. msg_ttl (s_ttl s) (sent_msg sd)))
   \<and> (unregister env s = Inr goodbye \<longrightarrow>
      (\<forall>sd\<in>set goodbye. \<forall>rr\<in>set (msg_records (sent_msg sd)). Ttl (Header rr) = 0))
   \<and> (s_service s = Some e \<longrightarrow>
      (\<exists>m. unregister env s = Inr [multicastResponse m 0] \<and> Ns m = [] \<and> Extra m = []
         \<and> Answer m = map (with_Ttl 0)
              (Answer (composeLookupAnswers env s e new_Msg (s_ttl s) 0 True))))"
proof (intro conjI impI)
  assume "handleQuery env s query ifIndex from = Inr replies"
  then show "\<forall>sd\<in>set replies. msg_ttl (s_ttl s) (sent_msg sd)" by (rule handleQuery_ttl)
next
  assume "probe env s msgId = Inr probes"
  then show "\<forall>sd\<in>set probes. msg_ttl (s_ttl s) (sent_msg sd)" by (rule probe_ttl)
next
  assume "SetText env s text = Inr (s', announced)"
  then show "\<forall>sd\<in>set announced. msg_ttl (s_ttl s) (sent_msg sd)" by (rule SetText_ttl)
next
  assume "unregister env s = Inr goodbye"
  from unregister_ttl [OF this]
  show "\<forall>sd\<in>set goodbye. \<forall>rr\<in>set (msg_records (sent_msg sd)). Ttl (Header rr) = 0"
    by (auto simp: msg_ttl_def dest: rr_ttl_0)
next
  assume e: "s_service s = Some e"
  have "Answer (composeLookupAnswers env s e
                  (new_Msg\<lparr>Answer := map (with_Ttl 0) (Answer new_Msg)\<rparr>) 0 0 True)
          = Answer (composeLookupAnswers env s e
                      (new_Msg\<lparr>Response := True, Answer := [], Extra := []\<rparr>) 0 0 True)"
    by (rule composeLookupAnswers_Answer_cong) (simp add: new_Msg_def)
  then have "map (with_Ttl 0) (Answer (composeLookupAnswers env s e new_Msg (s_ttl s) 0 True))
          = Answer (composeLookupAnswers env s e
                      (new_Msg\<lparr>Response := True, Answer := [], Extra := []\<rparr>) 0 0 True)"
    by (simp only: goodbye_same_records)
  then show "\<exists>m. unregister env s = Inr [multicastResponse m 0] \<and> Ns m = [] \<and> Extra m = []
         \<and> Answer m = map (with_Ttl 0)
              (Answer (composeLookupAnswers env s e new_Msg (s_ttl s) 0 True))"
    using e by (simp add: unregister_def Let_def composeLookupAnswers_Ns_Extra new_Msg_def)
qed

lemma responder_record_ttls_example:
  "\<exists>replies probes s' announced goodbye m.
     handleQuery example_env printer_server browse_query 2 querier = Inr replies
     \<and> replies \<noteq> [] \<and> list_all (\<lambda>sd. msg_ttl 3200 (sent_msg sd)) replies
     \<and> probe example_env printer_server 7 = Inr probes
     \<and> probes \<noteq> [] \<and> list_all (\<lambda>sd. msg_ttl 3200 (sent_msg sd)) probes
     \<and> SetText example_env printer_server [''rp=ipp/print2''] = Inr (s', announced)
     \<and> announced \<noteq> [] \<and> list_all (\<lambda>sd. msg_ttl 3200 (sent_msg sd)) announced
     \<and> unregister example_env printer_server = Inr goodbye
     \<and> goodbye = [multicastResponse m 0]
     \<and> list_all (\<lambda>rr. Ttl (Header rr) = 0) (msg_records m)
     \<and> Answer m = map (with_Ttl 0)
          (Answer (composeLookupAnswers example_env printer_server printer_entry new_Msg
                     3200 0 True))"
proof -
  obtain replies where r: "handleQuery example_env printer_server browse_query 2 querier = Inr replies"
      and r0: "replies \<noteq> []"
    by (simp add: responder_defs example_defs browse_query_def querier_def)
  obtain probes where p: "probe example_env printer_server 7 = Inr probes" and p0: "probes \<noteq> []"
    by (simp add: probe_def printer_server_def)
  obtain s' announced where a: "SetText example_env printer_server [''rp=ipp/print2''] = Inr (s', announced)"
      and a0: "announced \<noteq> []"
    by (simp add: SetText_def announceText_def printer_server_def Let_def)
  obtain goodbye where g: "unregister example_env printer_server = Inr goodbye"
    by (simp add: unregister_def printer_server_def Let_def)
  have e: "s_service printer_server = Some printer_entry" and t: "s_ttl printer_server = 3200"
    by (simp_all add: printer_server_def)
  note th = responder_record_ttls
              [of example_env printer_server browse_query 2 querier replies 7 probes
                  "[''rp=ipp/print2'']" s' announced goodbye printer_entry]
  from th e obtain m where m: "unregister example_env printer_server = Inr [multicastResponse m 0]"
      and am: "Answer m = map (with_Ttl 0)
          (Answer (composeLookupAnswers example_env printer_server printer_entry new_Msg
                     (s_ttl printer_server) 0 True))"
    by blast
  from m g have gm: "goodbye = [multicastResponse m 0]" by simp
  show ?thesis
    using th r r0 p p0 a a0 g gm am t by (auto simp: list_all_iff)
qed

text \<open>
  An entry that has addresses of its own gives the same lookup answer on every
  interface, so its goodbye holds the records of its announcements, with TTL 0.
\<close>

lemma composeLookupAnswers_own_addresses:
  "AddrIPv4 e \<noteq> [] \<or> AddrIPv6 e \<noteq> [] \<Longrightarrow>
   composeLookupAnswers env s e resp t ifIndex flushCache
     = composeLookupAnswers env s e resp t 0 flushCache"
  by (auto simp: composeLookupAnswers_def appendAddrs_def Let_def)

lemma goodbye_of_announcement:
  assumes "s_service s = Some e" and "AddrIPv4 e \<noteq> [] \<or> AddrIPv6 e \<noteq> []"
  shows "\<exists>m. unregister env s = Inr [multicastResponse m 0] \<and> Ns m = [] \<and> Extra m = []
           \<and> Answer m = map (with_Ttl 0) (Answer (sent_msg (probe_announcement env s e intf)))"
proof -
  have "Answer (sent_msg (probe_announcement env s e intf))
          = Answer (composeLookupAnswers env s e
                      (new_Msg\<lparr>Response := True, Compress := True, Answer := [], Extra := []\<rparr>)
                      (s_ttl s) 0 True)"
    using composeLookupAnswers_own_addresses [OF assms(2), of env s _ "s_ttl s" "Index intf" True]
    by (simp add: probe_announcement_def Let_def)
  also have "\<dots> = Answer (composeLookupAnswers env s e new_Msg (s_ttl s) 0 True)"
    by (rule composeLookupAnswers_Answer_cong) (simp add: new_Msg_def)
  finally show ?thesis
    using responder_record_ttls [of env s _ _ _ _ _ _ _ _ _ _ e] assms(1) by simp
qed

text \<open>
  C4. The goodbye does not always hold the records that were announced. An entry
  without addresses of its own (\<open>RegisterProxy\<close> with no \<open>ips\<close>) takes them from
  \<open>net.InterfaceByIndex(ifIndex)\<close>; the announcements are composed with the index of
  each interface, the goodbye with the index 0, which names no interface. For such a
  proxy on \<open>eth0\<close>: the announcements hold the SRV, TXT and PTR records and an A record
  with TTL 120; the same records with TTL 0 would be those and the A record with TTL 0;
  the goodbye holds no A record.
\<close>

theorem goodbye_without_announced_addresses:
  "RegisterProxy proxy_env ''Printer'' ''_ipp._tcp'' ''local'' 631 ''myhost'' []
     [''rp=ipp/print''] [eth0] [] = Inr proxy_server
   \<and> probe proxy_env proxy_server 7 =
       Inr [multicastResponse (probe_query proxy_server proxy_entry 7) 0,
            multicastResponse (probe_query proxy_server proxy_entry 7) 0,
            multicastResponse (probe_query proxy_server proxy_entry 7) 0,
            multicastResponse
              (new_Msg\<lparr>Response := True, Compress := True,
                       Answer := proxy_records 3200 @ [proxy_address 120]\<rparr>) 2,
            multicastResponse
              (new_Msg\<lparr>Response := True, Compress := True,
                       Answer := proxy_records 3200 @ [proxy_address 120]\<rparr>) 2]
   \<and> map (with_Ttl 0) (proxy_records 3200 @ [proxy_address 120])
       = proxy_records 0 @ [proxy_address 0]
   \<and> unregister proxy_env proxy_server =
       Inr [multicastResponse (new_Msg\<lparr>Response := True, Answer := proxy_records 0\<rparr>) 0]
   \<and> proxy_address 0 \<notin> set (proxy_records 0)"
  by code_simp

lemma reply_header_composeBrowsingAnswers:
  "reply_header (composeBrowsingAnswers env s e resp ifIndex) = reply_header resp"
  by (simp add: reply_header_def composeBrowsingAnswers_def Let_def)

lemma reply_header_composeLookupAnswers:
  "reply_header (composeLookupAnswers env s e resp t ifIndex flushCache) = reply_header resp"
  by (simp add: reply_header_def composeLookupAnswers_def Let_def)

lemma reply_header_serviceTypeName:
  "reply_header (serviceTypeName s e resp t) = reply_header resp"
  by (simp add: reply_header_def serviceTypeName_def Let_def)

lemma reply_header_clearKnownAnswer:
  "clearKnownAnswer resp query = Inr r \<Longrightarrow> reply_header r = reply_header resp"
  by (auto simp: clearKnownAnswer_def reply_header_def split: sum.splits if_splits)

lemma reply_header_handleQuestion_subtypes:
  "handleQuestion_subtypes env s e q resp query ifIndex subs = Inr r \<Longrightarrow>
   reply_header r = reply_header resp"
  by (induction subs)
     (auto simp: Let_def reply_header_composeBrowsingAnswers split: if_splits
           dest!: reply_header_clearKnownAnswer)

lemma reply_header_handleQuestion:
  assumes "handleQuestion env s q resp query ifIndex = Inr r"
  shows "reply_header r = reply_header resp"
proof (cases "s_service s")
  case None
  with assms show ?thesis by (simp add: handleQuestion_def)
next
  case (Some e)
  with assms show ?thesis
    by (auto simp: handleQuestion_def reply_header_composeBrowsingAnswers
                   reply_header_composeLookupAnswers reply_header_serviceTypeName
             split: if_splits
             dest!: reply_header_clearKnownAnswer reply_header_handleQuestion_subtypes)
qed

lemma reply_header_handleQuery_resp: "reply_header (handleQuery_resp query)"
  by (simp add: reply_header_def handleQuery_resp_def SetReply_def Let_def)

lemma handleQuery_body_reply_header:
  "handleQuery_body env s query ifIndex from q = Inr sends \<Longrightarrow>
   \<forall>sd\<in>set sends. reply_header (sent_msg sd)"
  using reply_header_handleQuery_resp [of query]
  by (auto simp: handleQuery_body_def split: sum.splits if_splits
           dest!: reply_header_handleQuestion)

lemma handleQuery_loop_reply_header:
  "handleQuery_loop env s query ifIndex from qs = Inr sends \<Longrightarrow>
   \<forall>sd\<in>set sends. reply_header (sent_msg sd)"
proof (induction qs arbitrary: sends)
  case Nil
  then show ?case by simp
next
  case (Cons q qs)
  then show ?case
    using handleQuery_body_reply_header [of env s query ifIndex "from" q]
    by (auto split: sum.splits)
qed

lemma handleQuery_reply_header:
  "handleQuery env s query ifIndex from = Inr sends \<Longrightarrow>
   \<forall>sd\<in>set sends. reply_header (sent_msg sd)"
  using handleQuery_loop_reply_header [of env s query ifIndex "from" "Question query" sends]
  by (auto simp: handleQuery_def split: if_splits)

text \<open>
  Claim C2: every response the responder builds has QR=1, AA=1, RD=0 and no question.
  The replies of \<open>handleQuery\<close> do (lemma \<open>handleQuery_reply_header\<close>); the goodbye
  of \<open>unregister\<close>, the announcement of \<open>announceText\<close> and the announcements of
  \<open>probe\<close> are built from a fresh message on which only \<open>Response\<close> is set, so
  their AA bit is clear. Evaluated for the printer service:
\<close>

theorem announcements_and_goodbye_not_authoritative:
  "(\<exists>m. unregister example_env printer_server = Inr [multicastResponse m 0]
        \<and> Response m \<and> \<not> Authoritative m \<and> \<not> RecursionDesired m \<and> Question m = [])
   \<and> (\<exists>m. announceText example_env printer_server = Inr [multicastResponse m 0]
        \<and> Response m \<and> \<not> Authoritative m \<and> \<not> RecursionDesired m \<and> Question m = [])
   \<and> (\<exists>q m. probe example_env printer_server 7
                = Inr [multicastResponse q 0, multicastResponse q 0, multicastResponse q 0,
                       multicastResponse m 2, multicastResponse m 2]
        \<and> Response m \<and> \<not> Authoritative m \<and> \<not> RecursionDesired m \<and> Question m = [])"
  by (simp add: unregister_def announceText_def probe_def probe_announcement_def
        multicastRepetitions_def composeLookupAnswers_def composeBrowsingAnswers_def
        printer_server_def new_Msg_def Let_def numeral_3_eq_3 numeral_2_eq_2)







lemma isKnownAnswer_loop_True:
  assumes "\<forall>rr\<in>set known. Rrtype (Header rr) = Rrtype ah \<longrightarrow> (\<exists>h p. rr = RR_PTR h p)"
    and "RR_PTR h ap \<in> set known" and "Rrtype h = Rrtype ah" and "Ttl h \<ge> Ttl ah div 2"
  shows "isKnownAnswer_loop ah ap known = Inr True"
  using assms
proof (induction known)
  case Nil
  then show ?case by simp
next
  case (Cons rr known)
  show ?case
  proof (cases "Rrtype (Header rr) = Rrtype ah")
    case False
    with Cons show ?thesis by (auto simp: Let_def)
  next
    case True
    with Cons.prems(1) obtain h' p' where rr: "rr = RR_PTR h' p'" by auto
    show ?thesis
    proof (cases "p' = ap \<and> Ttl h' \<ge> Ttl ah div 2")
      case True
      with rr \<open>Rrtype (Header rr) = Rrtype ah\<close> show ?thesis by (simp add: Let_def)
    next
      case False
      with rr Cons.prems have "RR_PTR h ap \<in> set known" by auto
      with Cons have "isKnownAnswer_loop ah ap known = Inr True" by simp
      with rr False \<open>Rrtype (Header rr) = Rrtype ah\<close> show ?thesis by (auto simp: Let_def)
    qed
  qed
qed

lemma clearKnownAnswer_known:
  assumes "Answer resp = [RR_PTR ah ap]" and "Rrtype ah = TypePTR"
    and "unpacked (Answer query)"
    and "RR_PTR h ap \<in> set (Answer query)" and "Rrtype h = TypePTR"
    and "Ttl h \<ge> Ttl ah div 2"
  shows "clearKnownAnswer resp query = Inr (resp\<lparr>Answer := []\<rparr>)"
proof -
  have "isKnownAnswer_loop ah ap (Answer query) = Inr True"
    using assms by (intro isKnownAnswer_loop_True [where h = h]) (auto simp: unpacked_def)
  moreover have "Answer query \<noteq> []" using assms(4) by auto
  ultimately have "isKnownAnswer resp query = Inr True"
    using assms(1,2) by (simp add: isKnownAnswer_def)
  then show ?thesis by (simp add: clearKnownAnswer_def)
qed

lemma handleQuestion_subtypes_match:
  assumes "\<exists>sub\<in>set subs. QName q = sub @ ''._sub.'' @ ServiceName e"
  shows "handleQuestion_subtypes env s e q resp query ifIndex subs
           = clearKnownAnswer (composeBrowsingAnswers env s e resp ifIndex) query"
  using assms by (induction subs) (auto simp: Let_def)

lemma Answer_composeBrowsingAnswers:
  "Answer (composeBrowsingAnswers env s e resp ifIndex) =
     Answer resp @ [RR_PTR \<lparr>Name = ServiceName e, Rrtype = TypePTR, Class = ClassINET,
                              Ttl = s_ttl s\<rparr> (ServiceInstanceName e)]"
  by (simp add: composeBrowsingAnswers_def Let_def)

lemma Answer_serviceTypeName:
  "Answer (serviceTypeName s e resp t) =
     Answer resp @ [RR_PTR \<lparr>Name = ServiceTypeName e, Rrtype = TypePTR, Class = ClassINET,
                              Ttl = t\<rparr> (ServiceName e)]"
  by (simp add: serviceTypeName_def Let_def)

lemma Answer_handleQuery_resp: "Answer (handleQuery_resp query) = []"
  by (simp add: handleQuery_resp_def)

text \<open>
  Claim C3, as amended: for a question on the service type name, on the service name
  or on a configured subtype name (the questions whose response starts with a PTR
  answer), if the Answer section of the inbound query, as unpacked, contains a PTR
  record with the rdata target of that PTR answer and a TTL of at least half the
  configured TTL (integer division), then the responder clears the Answer section of
  its response and sends nothing for that question. Instance lookups are not
  suppressed.
\<close>

theorem known_answer_suppression:
  assumes e: "s_service s = Some e"
    and q: "QName q = ServiceTypeName e \<and> target = ServiceName e
          \<or> QName q \<noteq> ServiceTypeName e \<and> target = ServiceInstanceName e
             \<and> (QName q = ServiceName e
                \<or> QName q \<noteq> ServiceInstanceName e
                   \<and> (\<exists>sub\<in>set (Subtypes e). QName q = sub @ ''._sub.'' @ ServiceName e))"
    and u: "unpacked (Answer query)"
    and k: "RR_PTR h target \<in> set (Answer query)" "Rrtype h = TypePTR"
           "Ttl h \<ge> s_ttl s div 2"
  shows "\<exists>resp. handleQuestion env s q (handleQuery_resp query) query ifIndex = Inr resp
           \<and> Answer resp = []
           \<and> handleQuery_body env s query ifIndex from q = Inr []"
proof -
  let ?r = "handleQuery_resp query"
  have "\<exists>resp. handleQuestion env s q ?r query ifIndex = Inr resp \<and> Answer resp = []"
  proof (cases "QName q = ServiceTypeName e")
    case True
    with q have t: "target = ServiceName e" by auto
    have "clearKnownAnswer (serviceTypeName s e ?r (s_ttl s)) query
            = Inr ((serviceTypeName s e ?r (s_ttl s))\<lparr>Answer := []\<rparr>)"
      using u k t
      by (intro clearKnownAnswer_known
            [where h = h and ap = "ServiceName e"
               and ah = "\<lparr>Name = ServiceTypeName e, Rrtype = TypePTR, Class = ClassINET,
                          Ttl = s_ttl s\<rparr>"])
         (simp_all add: Answer_serviceTypeName Answer_handleQuery_resp)
    with e True show ?thesis by (simp add: handleQuestion_def)
  next
    case False
    with q have t: "target = ServiceInstanceName e" by auto
    have c: "clearKnownAnswer (composeBrowsingAnswers env s e ?r ifIndex) query
            = Inr ((composeBrowsingAnswers env s e ?r ifIndex)\<lparr>Answer := []\<rparr>)"
      using u k t
      by (intro clearKnownAnswer_known
            [where h = h and ap = "ServiceInstanceName e"
               and ah = "\<lparr>Name = ServiceName e, Rrtype = TypePTR, Class = ClassINET,
                          Ttl = s_ttl s\<rparr>"])
         (simp_all add: Answer_composeBrowsingAnswers Answer_handleQuery_resp)
    show ?thesis
    proof (cases "QName q = ServiceName e")
      case True
      with e False c show ?thesis by (simp add: handleQuestion_def)
    next
      case nb: False
      with q False have ni: "QName q \<noteq> ServiceInstanceName e"
        and sub: "\<exists>sub\<in>set (Subtypes e). QName q = sub @ ''._sub.'' @ ServiceName e"
        by auto
      from handleQuestion_subtypes_match [OF sub] e False nb ni c show ?thesis
        by (simp add: handleQuestion_def)
    qed
  qed
  then show ?thesis by (auto simp: handleQuery_body_def)
qed

theorem known_answer_suppression_witness:
  "s_service printer_server = Some printer_entry
   \<and> RR_PTR \<lparr>Name = ''_ipp._tcp.local.'', Rrtype = 12, Class = 1, Ttl = 1600\<rparr>
        ''Printer._ipp._tcp.local.'' \<in> set (Answer known_browse_query)
   \<and> (1600 :: uint32) \<ge> s_ttl printer_server div 2
   \<and> handleQuery_body example_env printer_server known_browse_query 2 querier
        \<lparr>QName = ''_ipp._tcp.local.'', Qtype = 12, Qclass = 1\<rparr> = Inr []
   \<and> handleQuery example_env printer_server known_browse_query 2 querier = Inr []"
proof -
  have e: "s_service printer_server = Some printer_entry" by (simp add: printer_server_def)
  have q: "QName \<lparr>QName = ''_ipp._tcp.local.'', Qtype = 12, Qclass = 1\<rparr> = ServiceTypeName printer_entry
             \<and> ''Printer._ipp._tcp.local.'' = ServiceName printer_entry
          \<or> QName \<lparr>QName = ''_ipp._tcp.local.'', Qtype = 12, Qclass = 1\<rparr> \<noteq> ServiceTypeName printer_entry
             \<and> ''Printer._ipp._tcp.local.'' = ServiceInstanceName printer_entry
             \<and> (QName \<lparr>QName = ''_ipp._tcp.local.'', Qtype = 12, Qclass = 1\<rparr> = ServiceName printer_entry
                \<or> QName \<lparr>QName = ''_ipp._tcp.local.'', Qtype = 12, Qclass = 1\<rparr> \<noteq> ServiceInstanceName printer_entry
                   \<and> (\<exists>sub\<in>set (Subtypes printer_entry).
                         QName \<lparr>QName = ''_ipp._tcp.local.'', Qtype = 12, Qclass = 1\<rparr>
                           = sub @ ''._sub.'' @ ServiceName printer_entry))"
    by (simp add: example_defs)
  have u: "unpacked (Answer known_browse_query)"
    by (simp add: unpacked_def known_browse_query_def new_Msg_def)
  have k: "RR_PTR \<lparr>Name = ''_ipp._tcp.local.'', Rrtype = 12, Class = 1, Ttl = 1600\<rparr>
        ''Printer._ipp._tcp.local.'' \<in> set (Answer known_browse_query)"
    by (simp add: known_browse_query_def new_Msg_def)
  have t: "Rrtype \<lparr>Name = ''_ipp._tcp.local.'', Rrtype = 12, Class = 1, Ttl = 1600 :: uint32\<rparr> = TypePTR"
    by (simp add: TypePTR_def)
  have l: "Ttl \<lparr>Name = ''_ipp._tcp.local.'', Rrtype = 12 :: uint16, Class = 1 :: uint16, Ttl = 1600\<rparr>
             \<ge> s_ttl printer_server div 2"
    by (simp add: printer_server_def)
  have b: "handleQuery_body example_env printer_server known_browse_query 2 querier
        \<lparr>QName = ''_ipp._tcp.local.'', Qtype = 12, Qclass = 1\<rparr> = Inr []"
    using known_answer_suppression [OF e q u k t l, of example_env 2 querier] by blast
  then have "handleQuery example_env printer_server known_browse_query 2 querier = Inr []"
    by (simp add: handleQuery_def known_browse_query_def new_Msg_def)
  with e k l b show ?thesis by simp
qed

text \<open>
  The claim as stated fails for a lookup of the instance: the query carries the
  responder's PTR record \<open>_ipp._tcp.local. \<rightarrow> Printer._ipp._tcp.local.\<close> with the
  full TTL, and the response is sent with that PTR record in its Answer section.
\<close>

theorem known_answer_lookup_counterexample:
  "handleQuery example_env printer_server known_lookup_query 2 querier =
     Inr [multicastResponse
       \<lparr>MsgId = 0, Response = True, Opcode = 0, Authoritative = True,
          RecursionDesired = False, CheckingDisabled = False, Rcode = 0,
          Compress = True, Question = [],
          Answer =
            [RR_SRV \<lparr>Name = ''Printer._ipp._tcp.local.'', Rrtype = 33, Class = 32769,
                      Ttl = 3200\<rparr> 0 0 631 ''myhost.local.'',
             RR_TXT \<lparr>Name = ''Printer._ipp._tcp.local.'', Rrtype = 16, Class = 32769,
                      Ttl = 3200\<rparr> [''rp=ipp/print''],
             RR_PTR \<lparr>Name = ''_ipp._tcp.local.'', Rrtype = 12, Class = 1, Ttl = 3200\<rparr>
               ''Printer._ipp._tcp.local.'',
             RR_PTR \<lparr>Name = ''_services._dns-sd._udp.local.'', Rrtype = 12, Class = 1,
                      Ttl = 3200\<rparr> ''_ipp._tcp.local.'',
             RR_PTR \<lparr>Name = ''_universal'', Rrtype = 12, Class = 1, Ttl = 3200\<rparr>
               ''Printer._ipp._tcp.local.'',
             RR_A \<lparr>Name = ''myhost.local.'', Rrtype = 1, Class = 1, Ttl = 120\<rparr>
               [192, 168, 1, 10]],
          Ns = [], Extra = []\<rparr> 2]
   \<and> Answer known_lookup_query
       = [RR_PTR \<lparr>Name = ''_ipp._tcp.local.'', Rrtype = 12, Class = 1, Ttl = 3200\<rparr>
            ''Printer._ipp._tcp.local.'']"
  by (simp add: responder_defs example_defs known_lookup_query_def querier_def)

section \<open>Properties of the receive loops\<close>

lemma recv4_no_shutdown:
  "recv4 True (map (Pair False) reads) = parsePacket_calls reads"
  by (induction reads rule: parsePacket_calls.induct) simp_all

lemma recv6_no_shutdown:
  "recv6 True (map (Pair False) reads) = parsePacket_calls reads"
  by (induction reads rule: parsePacket_calls.induct) simp_all

lemma recv_fatal: "recv env l True script = []"
  by (cases script) auto

lemma recv_after_read_error:
  "recv env l False (before @ (ctxErr, ReadError, ctxDone) # after) = recv env l False before"
proof (induction before)
  case Nil
  then show ?case by (simp add: recv_fatal)
next
  case (Cons it before)
  obtain c r d where it: "it = (c, r, d)" by (cases it) auto
  show ?case
    using Cons by (auto simp: it recv_fatal split: ReadResult.splits option.splits)
qed

text \<open>
  Claim C6, as amended: in the server's \<open>recv4\<close> and \<open>recv6\<close> a read error does
  not end the loop: until shutdown, every datagram read is handed to
  \<open>parsePacket\<close>, whatever errors lie between. In the client's \<open>recv\<close> a packet
  that does not unpack is skipped, but a read error is kept in \<open>fatalErr\<close> and ends
  the loop: nothing that the script holds after it is processed.
\<close>

theorem read_errors_in_receive_loops:
  "recv4 True (map (Pair False) reads) = parsePacket_calls reads
   \<and> recv6 True (map (Pair False) reads) = parsePacket_calls reads
   \<and> recv env l False (before @ (ctxErr, ReadError, ctxDone) # after) = recv env l False before
   \<and> (l \<noteq> OtherConn \<and> Unpack env packet = None \<longrightarrow>
        recv env l False ((False, ReadOk packet cm sender, ctxDone) # script)
          = recv env l False script)"
  by (simp add: recv4_no_shutdown recv6_no_shutdown recv_after_read_error)

theorem read_errors_in_receive_loops_witness:
  "recv4 True [(False, ReadError), (False, datagram)] = [([1, 2, 3], 2, querier)]
   \<and> recv6 True [(False, ReadError), (False, datagram)] = [([1, 2, 3], 2, querier)]
   \<and> recv example_env IPv4PacketConn False
        [(False, datagram, False), (False, ReadError, False), (False, datagram, False)]
       = [new_Msg\<lparr>MsgId := 3\<rparr>]
   \<and> Unpack example_env [] = None
   \<and> recv example_env IPv4PacketConn False
        [(False, ReadOk [] None querier, False), (False, datagram, False)]
       = [new_Msg\<lparr>MsgId := 3\<rparr>]"
  using read_errors_in_receive_loops
          [where reads = "[ReadError, datagram]" and env = example_env and l = IPv4PacketConn
             and before = "[(False, datagram, False)]" and ctxErr = False and ctxDone = False
             and after = "[(False, datagram, False)]" and packet = "[]" and cm = None
             and sender = querier and script = "[(False, datagram, False)]"]
  by (simp add: datagram_def example_env_def)

text \<open>
  The claim as stated fails for the client's loop: a datagram that follows a read
  error is not processed, though the same datagram alone is.
\<close>

theorem client_recv_stops_at_read_error_counterexample:
  "recv example_env IPv4PacketConn False [(False, ReadError, False), (False, datagram, False)] = []
   \<and> recv example_env IPv4PacketConn False [(False, datagram, False)] = [new_Msg\<lparr>MsgId := 3\<rparr>]"
  by (simp add: datagram_def example_env_def)

section \<open>Properties of registration\<close>

lemma HasSuffix_append: "HasSuffix (xs @ ys) ys"
  by (simp add: HasSuffix_def)

lemma RegisterProxy_ips_names:
  "RegisterProxy_ips env entry ips = Inr entry' \<Longrightarrow>
   HostName entry' = HostName entry \<and> DomainName entry' = DomainName entry"
  by (induction ips arbitrary: entry) (auto split: option.splits if_splits)

lemma Register_addrs_names:
  "HostName (Register_addrs env entry ifaces) = HostName entry
   \<and> DomainName (Register_addrs env entry ifaces) = DomainName entry"
  by (induction ifaces arbitrary: entry) (auto split: prod.splits)

lemma RegisterProxy_hostname:
  assumes "RegisterProxy env instance service domain port host ips text ifaces opts = Inr s"
  shows "\<exists>e. s_service s = Some e
           \<and> DomainName e = (if domain = [] then ''local'' else domain)
           \<and> hostname_rule host (DomainName e) (HostName e)"
  using assms
  by (auto simp: RegisterProxy_def Let_def newServiceEntry_def
                 hostname_rule_def HasSuffix_append
           split: if_splits sum.splits dest!: RegisterProxy_ips_names)

lemma Register_hostname:
  assumes "Register env instance service domain port text ifaces opts = Inr s"
  shows "\<exists>e h. s_service s = Some e \<and> Hostname env = Some h
           \<and> DomainName e = (if domain = [] then ''local.'' else domain)
           \<and> hostname_rule h (DomainName e) (HostName e)"
  using assms
  by (auto simp: Register_def Let_def newServiceEntry_def Register_addrs_names
                 hostname_rule_def HasSuffix_append
           split: if_splits sum.splits option.splits)

text \<open>
  What \<open>RegisterProxy\<close> and \<open>Register\<close> do to the host name, for every input on
  which they succeed: the domain of the entry is the one given, or the default of the
  function, and the host name of the entry follows \<open>hostname_rule\<close> for the host given
  to \<open>RegisterProxy\<close>, or the one of the operating system for \<open>Register\<close>.
\<close>

lemma registered_hostname:
  "(RegisterProxy env inst service domain port host ips texts ifaces opts = Inr s \<longrightarrow>
      (\<exists>e. s_service s = Some e
          \<and> DomainName e = (if domain = [] then ''local'' else domain)
          \<and> hostname_rule host (DomainName e) (HostName e)))
   \<and> (Register env inst service domain port texts ifaces opts = Inr s' \<longrightarrow>
      (\<exists>e h. s_service s' = Some e \<and> Hostname env = Some h
          \<and> DomainName e = (if domain = [] then ''local.'' else domain)
          \<and> hostname_rule h (DomainName e) (HostName e)))"
  by (intro conjI impI, erule RegisterProxy_hostname, erule Register_hostname)

text \<open>
  C8. The host name of a registered entry does not always end with \<open>.<domain>.\<close>.
  Both functions test \<open>HasSuffix(trimDot(host), domain)\<close> and keep a host that passes
  as it was given: \<open>myhost.local\<close> stays without its trailing dot, and \<open>xlocal\<close>,
  which has no dot before the domain, stays too. With the default domain \<open>local.\<close> of
  \<open>Register\<close> the host \<open>myhost.local.\<close>, which carries the suffix, gets it a second
  time. Evaluated:
\<close>

theorem registered_hostname_not_canonical:
  "RegisterProxy example_env ''Printer'' ''_ipp._tcp'' ''local'' 631 ''myhost.local'' []
     [''rp=ipp/print''] [] []
   = Inr \<lparr>s_service =
            Some \<lparr>Instance = ''Printer'', Service = ''_ipp._tcp'', DomainName = ''local'',
                  Subtypes = [], HostName = ''myhost.local'', Port = 631,
                  Text = [''rp=ipp/print''], Expiry = 0, AddrIPv4 = [], AddrIPv6 = [],
                  CacheFlush = False\<rparr>,
          s_ipv4conn = True, s_ipv6conn = True, s_ifaces = [], s_isShutdown = False,
          s_ttl = 3200\<rparr>
   \<and> \<not> HasSuffix ''myhost.local'' ''.local.''
   \<and> RegisterProxy example_env ''Printer'' ''_ipp._tcp'' ''local'' 631 ''xlocal'' []
       [''rp=ipp/print''] [] []
     = Inr \<lparr>s_service =
              Some \<lparr>Instance = ''Printer'', Service = ''_ipp._tcp'', DomainName = ''local'',
                    Subtypes = [], HostName = ''xlocal'', Port = 631,
                    Text = [''rp=ipp/print''], Expiry = 0, AddrIPv4 = [], AddrIPv6 = [],
                    CacheFlush = False\<rparr>,
            s_ipv4conn = True, s_ipv6conn = True, s_ifaces = [], s_isShutdown = False,
            s_ttl = 3200\<rparr>
   \<and> \<not> HasSuffix ''xlocal'' ''.local.''
   \<and> Register (example_env\<lparr>Hostname := Some ''myhost.local.''\<rparr>) ''Printer'' ''_ipp._tcp'' []
       631 [''rp=ipp/print''] [eth0] []
     = Inr \<lparr>s_service =
              Some \<lparr>Instance = ''Printer'', Service = ''_ipp._tcp'', DomainName = ''local.'',
                    Subtypes = [], HostName = ''myhost.local.local.'', Port = 631,
                    Text = [''rp=ipp/print''], Expiry = 0, AddrIPv4 = [[192, 168, 1, 10]],
                    AddrIPv6 = [], CacheFlush = False\<rparr>,
            s_ipv4conn = True, s_ipv6conn = True, s_ifaces = [eth0], s_isShutdown = False,
            s_ttl = 3200\<rparr>
   \<and> HasSuffix (trimDot ''myhost.local.'') ''local''"
  by code_simp


section \<open>Properties of the resolver\<close>

lemma all_host_unset_update:
  "all_host_unset al \<Longrightarrow> host_unset v \<Longrightarrow> all_host_unset (AList.update k v al)"
  unfolding all_host_unset_def by (induction al) auto

lemma all_host_unset_map_entry:
  "all_host_unset al \<Longrightarrow> (\<And>e. host_unset e \<Longrightarrow> host_unset (f e))
   \<Longrightarrow> all_host_unset (AList.map_entry k f al)"
  unfolding all_host_unset_def by (induction al) auto

lemma host_unset_newServiceEntry: "host_unset (newServiceEntry i s d)"
  by (simp add: host_unset_def newServiceEntry_def)

lemma host_unset_updates:
  "host_unset (e\<lparr>Expiry := x\<rparr>) = host_unset e"
  "host_unset (e\<lparr>CacheFlush := y\<rparr>) = host_unset e"
  "host_unset (e\<lparr>Text := z\<rparr>) = host_unset e"
  "host_unset (e\<lparr>AddrIPv4 := v4\<rparr>) = host_unset e"
  "host_unset (e\<lparr>AddrIPv6 := v6\<rparr>) = host_unset e"
  by (simp_all add: host_unset_def)

lemma mainloop_pass1_host_unset:
  assumes "all_host_unset entries" and "\<not> is_SRV rr"
  shows "all_host_unset (mainloop_pass1 params now entries rr)"
  using assms
  by (cases rr)
     (simp_all add: Let_def all_host_unset_update all_host_unset_map_entry
        host_unset_newServiceEntry host_unset_updates)

lemma foldl_pass1_host_unset:
  "all_host_unset entries \<Longrightarrow> \<forall>rr\<in>set rrs. \<not> is_SRV rr
   \<Longrightarrow> all_host_unset (foldl (mainloop_pass1 params now) entries rrs)"
  by (induction rrs arbitrary: entries) (simp_all add: mainloop_pass1_host_unset)

lemma mainloop_pass2_host_unset:
  "all_host_unset entries \<Longrightarrow> all_host_unset (mainloop_pass2 entries rr)"
  by (cases rr) (auto simp: all_host_unset_def host_unset_updates split: if_splits)

lemma foldl_pass2_host_unset:
  "all_host_unset entries \<Longrightarrow> all_host_unset (foldl mainloop_pass2 entries rrs)"
  by (induction rrs arbitrary: entries) (simp_all add: mainloop_pass2_host_unset)

lemma mainloop_deliver_subset:
  "set (fst (mainloop_deliver now entries sentEntries)) \<subseteq> snd ` set entries"
  by (induction now entries sentEntries rule: mainloop_deliver.induct)
     (auto split: prod.splits option.splits if_splits simp del: fun_upd_apply)

lemma mainloop_msg_host_unset:
  assumes "\<forall>rr\<in>set (Answer msg @ Ns msg @ Extra msg). \<not> is_SRV rr"
  shows "\<forall>e\<in>set (fst (mainloop_msg params now msg sentEntries)). host_unset e"
proof -
  let ?sections = "(Answer msg @ Ns msg) @ Extra msg"
  let ?entries = "foldl mainloop_pass2 (foldl (mainloop_pass1 params now) [] ?sections) ?sections"
  have "all_host_unset []"
    by (simp add: all_host_unset_def)
  then have "all_host_unset (foldl (mainloop_pass1 params now) [] ?sections)"
    using assms by (intro foldl_pass1_host_unset) simp_all
  then have "all_host_unset ?entries"
    by (rule foldl_pass2_host_unset)
  then show ?thesis
    using mainloop_deliver_subset [of now ?entries sentEntries]
    unfolding mainloop_msg_def Let_def all_host_unset_def by auto
qed

lemma mainloop_msg_single_PTR:
  assumes "Answer msg = [RR_PTR hdr ptr]" and "Ns msg = []" and "Extra msg = []"
    and "ServiceName params = Name hdr"
    and "ServiceInstanceName params = [] \<or> ServiceInstanceName params = ptr"
    and "Ttl hdr \<noteq> 0" and "sentEntries ptr = None"
  shows "fst (mainloop_msg params now msg sentEntries) =
           [(newServiceEntry (trimDot (Replace_by_empty ptr (Name hdr) (- 1)))
               (Service params) (DomainName params))
              \<lparr>Expiry := now + int (unat (Ttl hdr)) * Second,
               CacheFlush := (Class hdr > 32768)\<rparr>]"
proof -
  have "uint (Ttl hdr) \<noteq> 0"
    using assms(6) by (simp add: uint_0_iff)
  then have "0 < uint (Ttl hdr)"
    using uint_ge_0 [of "Ttl hdr"] by linarith
  then have "now < now + int (unat (Ttl hdr)) * Second"
    by (simp add: Second_def)
  then show ?thesis
    using assms by (auto simp: mainloop_msg_def Let_def)
qed

text \<open>
  C7. For a message taken by the main loop of the resolver: when none of its records
  is an SRV, every entry delivered to the subscriber has an empty host name and port
  0; and such entries are delivered: a message whose only record is a PTR for the
  service browsed (or for the instance looked up) with a nonzero TTL, not yet among the
  entries sent, delivers exactly one entry, the new entry of that instance with its
  expiry and cache-flush flag set.
\<close>

theorem delivery_without_SRV:
  "((\<forall>rr\<in>set (Answer msg @ Ns msg @ Extra msg). \<not> is_SRV rr) \<longrightarrow>
      (\<forall>e\<in>set (fst (mainloop_msg params now msg sentEntries)). host_unset e))
   \<and> (Answer msg = [RR_PTR hdr ptr] \<and> Ns msg = [] \<and> Extra msg = []
        \<and> ServiceName params = Name hdr
        \<and> (ServiceInstanceName params = [] \<or> ServiceInstanceName params = ptr)
        \<and> Ttl hdr \<noteq> 0 \<and> sentEntries ptr = None \<longrightarrow>
      fst (mainloop_msg params now msg sentEntries) =
        [(newServiceEntry (trimDot (Replace_by_empty ptr (Name hdr) (- 1)))
            (Service params) (DomainName params))
           \<lparr>Expiry := now + int (unat (Ttl hdr)) * Second,
            CacheFlush := (Class hdr > 32768)\<rparr>])"
  by (intro conjI impI mainloop_msg_host_unset mainloop_msg_single_PTR) simp_all

theorem delivery_without_SRV_witness:
  "fst (mainloop_msg browse_params 0 ptr_only_msg Map.empty) =
     [\<lparr>Instance = ''Printer'', Service = ''_ipp._tcp'', DomainName = ''local'',
       Subtypes = [], HostName = [], Port = 0, Text = [], Expiry = 3200000000000,
       AddrIPv4 = [], AddrIPv6 = [], CacheFlush = False\<rparr>]
   \<and> host_unset
        \<lparr>Instance = ''Printer'', Service = ''_ipp._tcp'', DomainName = ''local'',
         Subtypes = [], HostName = [], Port = 0, Text = [], Expiry = 3200000000000,
         AddrIPv4 = [], AddrIPv6 = [], CacheFlush = False\<rparr>"
proof -
  let ?hdr = "\<lparr>Name = ''_ipp._tcp.local.'', Rrtype = 12, Class = 1, Ttl = 3200\<rparr>"
  have sections:
    "Answer ptr_only_msg = [RR_PTR ?hdr ''Printer._ipp._tcp.local.'']
     \<and> Ns ptr_only_msg = [] \<and> Extra ptr_only_msg = []"
    by (simp add: ptr_only_msg_def new_Msg_def)
  have names:
    "ServiceName browse_params = ''_ipp._tcp.local.'' \<and> ServiceInstanceName browse_params = []
     \<and> Service browse_params = ''_ipp._tcp'' \<and> DomainName browse_params = ''local''"
    by (simp add: browse_params_def ServiceName_def ServiceInstanceName_def)
  have entry:
    "newServiceEntry
       (trimDot (Replace_by_empty ''Printer._ipp._tcp.local.'' ''_ipp._tcp.local.'' (- 1)))
       ''_ipp._tcp'' ''local''
     = \<lparr>Instance = ''Printer'', Service = ''_ipp._tcp'', DomainName = ''local'',
        Subtypes = [], HostName = [], Port = 0, Text = [], Expiry = 0,
        AddrIPv4 = [], AddrIPv6 = [], CacheFlush = False\<rparr>"
    by code_simp
  show ?thesis
    using delivery_without_SRV
            [where msg = ptr_only_msg and params = browse_params and now = 0
               and sentEntries = Map.empty and hdr = ?hdr
               and ptr = "''Printer._ipp._tcp.local.''"]
    by (simp add: sections names entry Second_def)
qed

text \<open>
  The claim as stated fails: the entry of a response with a PTR, a TXT and an A record
  but no SRV is delivered, with no host name, no port and no address.
\<close>

theorem PTR_and_TXT_delivered_counterexample:
  "fst (mainloop_msg browse_params (5 * Second) ptr_txt_msg Map.empty) =
     [\<lparr>Instance = ''Printer'', Service = ''_ipp._tcp'', DomainName = ''local'',
       Subtypes = [], HostName = [], Port = 0, Text = [''rp=ipp/print''],
       Expiry = 3205000000000, AddrIPv4 = [], AddrIPv6 = [], CacheFlush = True\<rparr>]
   \<and> filter is_SRV (Answer ptr_txt_msg @ Ns ptr_txt_msg @ Extra ptr_txt_msg) = []"
  by code_simp

end
